theory Spec2Isabelle
  imports Complex_Main
begin

section \<open>Compliance records (models/compliance\_record.ts)\<close>

text \<open>
  The enums of the TypeScript model. A JavaScript exception is a value of \<open>js_error\<close>;
  a function that can throw returns \<open>js_error + 'a\<close>.
\<close>

datatype TransactionSource =
  MULTISIG_TRANSACTION | SCHEDULED_DISTRIBUTION | ALLOCATION_RULE | DISTRIBUTION_RULE

datatype ComplianceStatus = PENDING | VERIFIED | REJECTED | EXEMPT | UNKNOWN

datatype js_error = RangeError | Error string

record Metadata =
  jurisdiction :: "string option"
  regulatoryCategory :: "string option"
  reportingPeriod :: "string option"
  notes_text :: "string option"

text \<open>
  The interface \<open>ComplianceRecord\<close>. A field declared with \<open>?\<close> is an option
  (\<open>None\<close> is \<open>undefined\<close>). The integer-valued numbers (ids, Unix seconds, block
  numbers) are \<open>int\<close>; \<open>usdcAmountFormatted\<close> is a floating-point quotient and is
  carried as the real it denotes.
\<close>

record ComplianceRecord =
  recordId :: string
  transactionHash :: string
  internalTxHash :: string
  ruleId :: int
  source :: TransactionSource
  recipient :: string
  usdcAmount :: string
  usdcAmountFormatted :: real
  kycStatus :: ComplianceStatus
  amlStatus :: ComplianceStatus
  timestamp :: int
  timestampISO :: string
  blockNumber :: int
  executor :: string
  circleGatewayTxId :: "string option"
  arcTransparencyId :: "string option"
  reconciled :: bool
  reconciledAt :: int
  reconciledAtISO :: "string option"
  metadata :: "Metadata option"
  createdAt :: "string option"
  updatedAt :: "string option"

subsection \<open>Dates: \<open>new Date(ms).toISOString()\<close>\<close>

text \<open>
  A time value is a number of milliseconds since the epoch; \<open>new Date(ms)\<close> is a valid
  date exactly when \<open>|ms| \<le> 8.64e15\<close>, and \<open>toISOString\<close> throws a RangeError on an
  invalid one. The calendar fields come from the day number by the usual proleptic
  Gregorian computation; the year is written with four digits from 0 to 9999 and with a
  sign and six digits otherwise.
\<close>

definition valid_time_value :: "int \<Rightarrow> bool" where
  "valid_time_value ms = (\<bar>ms\<bar> \<le> 8640000000000000)"

primrec pad :: "nat \<Rightarrow> nat \<Rightarrow> string" where
  "pad 0 n = []"
| "pad (Suc w) n = pad w (n div 10) @ [''0123456789'' ! (n mod 10)]"

definition year_month_day :: "int \<Rightarrow> int \<times> int \<times> int" where
  "year_month_day days =
     (let z = days + 719468;
          era = z div 146097;
          doe = z mod 146097;
          yoe = (doe - doe div 1460 + doe div 36524 - doe div 146096) div 365;
          doy = doe - (365 * yoe + yoe div 4 - yoe div 100);
          mp = (5 * doy + 2) div 153;
          d = doy - (153 * mp + 2) div 5 + 1;
          m = (if mp < 10 then mp + 3 else mp - 9);
          y = yoe + era * 400 + (if m \<le> 2 then 1 else 0)
      in (y, m, d))"

definition year_string :: "int \<Rightarrow> string" where
  "year_string y =
     (if 0 \<le> y \<and> y \<le> 9999 then pad 4 (nat y)
      else (if y < 0 then ''-'' else ''+'') @ pad 6 (nat \<bar>y\<bar>))"

definition toISOString :: "int \<Rightarrow> string" where
  "toISOString ms =
     (let days = ms div 86400000;
          t = ms mod 86400000;
          (y, m, d) = year_month_day days
      in year_string y @ ''-'' @ pad 2 (nat m) @ ''-'' @ pad 2 (nat d) @ ''T''
         @ pad 2 (nat (t div 3600000)) @ '':'' @ pad 2 (nat (t div 60000 mod 60)) @ '':''
         @ pad 2 (nat (t div 1000 mod 60)) @ ''.'' @ pad 3 (nat (t mod 1000)) @ ''Z'')"

text \<open>\<open>ComplianceRecordUtils.timestampToISO\<close>: \<open>new Date(timestamp * 1000).toISOString()\<close>.\<close>

definition timestampToISO :: "int \<Rightarrow> js_error + string" where
  "timestampToISO ts =
     (if valid_time_value (ts * 1000) then Inr (toISOString (ts * 1000)) else Inl RangeError)"

subsection \<open>\<open>ComplianceRecordUtils\<close>\<close>

text \<open>
  \<open>a || b\<close> on optional strings: \<open>a\<close> when it is truthy (defined and not the empty
  string), \<open>b\<close> otherwise.
\<close>

definition truthy_string :: "string option \<Rightarrow> bool" where
  "truthy_string a = (case a of None \<Rightarrow> False | Some s \<Rightarrow> s \<noteq> [])"

definition js_or :: "string option \<Rightarrow> string option \<Rightarrow> string option" where
  "js_or a b = (if truthy_string a then a else b)"

text \<open>
  \<open>markReconciled\<close> reads the clock once (\<open>Date.now()\<close>, in milliseconds, the
  argument \<open>clock\<close>), floors it to seconds and copies the record with the three
  reconciliation fields replaced. \<open>timestampToISO\<close> can throw, so the result is a sum.
\<close>

definition markReconciled :: "int \<Rightarrow> ComplianceRecord \<Rightarrow> js_error + ComplianceRecord" where
  "markReconciled clock record =
     (let now = clock div 1000 in
      case timestampToISO now of
        Inl e \<Rightarrow> Inl e
      | Inr isoString \<Rightarrow>
          Inr (record\<lparr>reconciled := True, reconciledAt := now, reconciledAtISO := Some isoString\<rparr>))"

definition updateComplianceStatus ::
  "ComplianceRecord \<Rightarrow> ComplianceStatus \<Rightarrow> ComplianceStatus \<Rightarrow> string option \<Rightarrow> string option
     \<Rightarrow> ComplianceRecord" where
  "updateComplianceStatus record kyc aml gatewayTxId transparencyId =
     record\<lparr>kycStatus := kyc, amlStatus := aml,
       circleGatewayTxId := js_or gatewayTxId (circleGatewayTxId record),
       arcTransparencyId := js_or transparencyId (arcTransparencyId record)\<rparr>"

text \<open>
  \<open>fromEvent\<close>. Its first argument stands for \<open>formatUSDCAmount\<close>
  (\<open>parseInt(amount, 10) / 1e6\<close>, a floating-point division), which this embedding
  does not compute. The optional fields that the object literal leaves out are
  \<open>undefined\<close>.
\<close>

definition fromEvent ::
  "(string \<Rightarrow> real) \<Rightarrow> string \<Rightarrow> string \<Rightarrow> string \<Rightarrow> int \<Rightarrow> TransactionSource \<Rightarrow> string \<Rightarrow> string
     \<Rightarrow> int \<Rightarrow> int \<Rightarrow> js_error + ComplianceRecord" where
  "fromEvent formatUSDCAmount recId txHash recip rule src amount exec blockNo ts =
     (case timestampToISO ts of
        Inl e \<Rightarrow> Inl e
      | Inr isoString \<Rightarrow>
          Inr \<lparr>recordId = recId, transactionHash = txHash, internalTxHash = recId,
               ruleId = rule, source = src, recipient = recip, usdcAmount = amount,
               usdcAmountFormatted = formatUSDCAmount amount,
               kycStatus = UNKNOWN, amlStatus = UNKNOWN,
               timestamp = ts, timestampISO = isoString, blockNumber = blockNo, executor = exec,
               circleGatewayTxId = None, arcTransparencyId = None,
               reconciled = False, reconciledAt = 0, reconciledAtISO = None,
               metadata = None, createdAt = None, updatedAt = None\<rparr>)"

subsection \<open>\<open>ComplianceRecordValidator\<close>\<close>

text \<open>
  \<open>Partial<ComplianceRecord>\<close>: every field optional. The four regular expressions
  are anchored at both ends and have no flags, so each is a test of the whole string.
\<close>

record PartialComplianceRecord =
  p_recordId :: "string option"
  p_transactionHash :: "string option"
  p_internalTxHash :: "string option"
  p_ruleId :: "int option"
  p_source :: "TransactionSource option"
  p_recipient :: "string option"
  p_usdcAmount :: "string option"
  p_usdcAmountFormatted :: "real option"
  p_kycStatus :: "ComplianceStatus option"
  p_amlStatus :: "ComplianceStatus option"
  p_timestamp :: "int option"
  p_timestampISO :: "string option"
  p_blockNumber :: "int option"
  p_executor :: "string option"
  p_circleGatewayTxId :: "string option"
  p_arcTransparencyId :: "string option"
  p_reconciled :: "bool option"
  p_reconciledAt :: "int option"
  p_reconciledAtISO :: "string option"
  p_metadata :: "Metadata option"
  p_createdAt :: "string option"
  p_updatedAt :: "string option"

definition is_hex :: "char \<Rightarrow> bool" where
  "is_hex c = (c \<in> set ''0123456789abcdefABCDEF'')"

definition is_digit :: "char \<Rightarrow> bool" where
  "is_digit c = (c \<in> set ''0123456789'')"

definition is_upper :: "char \<Rightarrow> bool" where
  "is_upper c = (c \<in> set ''ABCDEFGHIJKLMNOPQRSTUVWXYZ'')"

definition validateAddress :: "string \<Rightarrow> bool" where
  "validateAddress address =
     (take 2 address = ''0x'' \<and> length address = 42 \<and> list_all is_hex (drop 2 address))"

definition validateHash :: "string \<Rightarrow> bool" where
  "validateHash hash =
     (take 2 hash = ''0x'' \<and> length hash = 66 \<and> list_all is_hex (drop 2 hash))"

definition validateAmount :: "string \<Rightarrow> bool" where
  "validateAmount amount = (amount \<noteq> [] \<and> list_all is_digit amount)"

definition validateJurisdiction :: "string \<Rightarrow> bool" where
  "validateJurisdiction j = (length j = 2 \<and> list_all is_upper j)"

text \<open>
  One guarded \<open>errors.push\<close> of \<open>validate\<close>: \<open>field && !ok(field)\<close> for a string
  field, \<open>field !== undefined && field < 0\<close> for a number.
\<close>

definition check_string :: "string option \<Rightarrow> (string \<Rightarrow> bool) \<Rightarrow> string \<Rightarrow> string list" where
  "check_string field ok msg =
     (case field of
        None \<Rightarrow> []
      | Some s \<Rightarrow> if s \<noteq> [] \<and> \<not> ok s then [msg] else [])"

definition check_number :: "int option \<Rightarrow> string \<Rightarrow> string list" where
  "check_number field msg =
     (case field of None \<Rightarrow> [] | Some n \<Rightarrow> if n < 0 then [msg] else [])"

definition metadata_jurisdiction :: "PartialComplianceRecord \<Rightarrow> string option" where
  "metadata_jurisdiction record =
     (case p_metadata record of None \<Rightarrow> None | Some m \<Rightarrow> jurisdiction m)"

definition validate :: "PartialComplianceRecord \<Rightarrow> string list" where
  "validate record =
     check_string (p_recordId record) validateHash ''recordId must be a valid bytes32 hex string''
     @ check_string (p_transactionHash record) validateHash
         ''transactionHash must be a valid bytes32 hex string''
     @ check_string (p_internalTxHash record) validateHash
         ''internalTxHash must be a valid bytes32 hex string''
     @ check_string (p_recipient record) validateAddress
         ''recipient must be a valid Ethereum address''
     @ check_string (p_executor record) validateAddress
         ''executor must be a valid Ethereum address''
     @ check_string (p_usdcAmount record) validateAmount ''usdcAmount must be a numeric string''
     @ check_number (p_ruleId record) ''ruleId must be non-negative''
     @ check_number (p_timestamp record) ''timestamp must be non-negative''
     @ check_number (p_blockNumber record) ''blockNumber must be non-negative''
     @ check_string (metadata_jurisdiction record) validateJurisdiction
         ''metadata.jurisdiction must be a valid ISO 3166-1 alpha-2 code''"

definition empty_record :: PartialComplianceRecord where
  "empty_record =
     \<lparr>p_recordId = None, p_transactionHash = None, p_internalTxHash = None, p_ruleId = None,
      p_source = None, p_recipient = None, p_usdcAmount = None, p_usdcAmountFormatted = None,
      p_kycStatus = None, p_amlStatus = None, p_timestamp = None, p_timestampISO = None,
      p_blockNumber = None, p_executor = None, p_circleGatewayTxId = None,
      p_arcTransparencyId = None, p_reconciled = None, p_reconciledAt = None,
      p_reconciledAtISO = None, p_metadata = None, p_createdAt = None, p_updatedAt = None\<rparr>"

text \<open>The ten fields \<open>validate\<close> looks at, each with its message and its presence test.\<close>

datatype validated_field =
  F_recordId | F_transactionHash | F_internalTxHash | F_recipient | F_executor
  | F_usdcAmount | F_ruleId | F_timestamp | F_blockNumber | F_jurisdiction

fun field_error :: "validated_field \<Rightarrow> string" where
  "field_error F_recordId = ''recordId must be a valid bytes32 hex string''"
| "field_error F_transactionHash = ''transactionHash must be a valid bytes32 hex string''"
| "field_error F_internalTxHash = ''internalTxHash must be a valid bytes32 hex string''"
| "field_error F_recipient = ''recipient must be a valid Ethereum address''"
| "field_error F_executor = ''executor must be a valid Ethereum address''"
| "field_error F_usdcAmount = ''usdcAmount must be a numeric string''"
| "field_error F_ruleId = ''ruleId must be non-negative''"
| "field_error F_timestamp = ''timestamp must be non-negative''"
| "field_error F_blockNumber = ''blockNumber must be non-negative''"
| "field_error F_jurisdiction =
     ''metadata.jurisdiction must be a valid ISO 3166-1 alpha-2 code''"

fun field_missing :: "validated_field \<Rightarrow> PartialComplianceRecord \<Rightarrow> bool" where
  "field_missing F_recordId r = (p_recordId r = None)"
| "field_missing F_transactionHash r = (p_transactionHash r = None)"
| "field_missing F_internalTxHash r = (p_internalTxHash r = None)"
| "field_missing F_recipient r = (p_recipient r = None)"
| "field_missing F_executor r = (p_executor r = None)"
| "field_missing F_usdcAmount r = (p_usdcAmount r = None)"
| "field_missing F_ruleId r = (p_ruleId r = None)"
| "field_missing F_timestamp r = (p_timestamp r = None)"
| "field_missing F_blockNumber r = (p_blockNumber r = None)"
| "field_missing F_jurisdiction r = (metadata_jurisdiction r = None)"

section \<open>The Mongoose model (models/ComplianceRecord.mongoose.js)\<close>

text \<open>
  A document of \<open>ComplianceRecordSchema\<close>. Every path is an option (\<open>None\<close> is
  \<open>undefined\<close>). The two paths of type \<open>Date\<close> hold a date object: a time value in
  milliseconds, or the invalid date.
\<close>

datatype date = Date int | InvalidDate

definition new_Date :: "int \<Rightarrow> date" where
  "new_Date ms = (if valid_time_value ms then Date ms else InvalidDate)"

record ComplianceRecordDoc =
  d_recordId :: "string option"
  d_transactionHash :: "string option"
  d_internalTxHash :: "string option"
  d_ruleId :: "int option"
  d_source :: "TransactionSource option"
  d_recipient :: "string option"
  d_usdcAmount :: "string option"
  d_usdcAmountFormatted :: "real option"
  d_kycStatus :: "ComplianceStatus option"
  d_amlStatus :: "ComplianceStatus option"
  d_timestamp :: "int option"
  d_timestampISO :: "date option"
  d_blockNumber :: "int option"
  d_executor :: "string option"
  d_circleGatewayTxId :: "string option"
  d_arcTransparencyId :: "string option"
  d_reconciled :: "bool option"
  d_reconciledAt :: "int option"
  d_reconciledAtISO :: "date option"
  d_metadata :: "Metadata option"

text \<open>
  The \<open>default\<close> entries of the schema: a new document takes the default of a path
  that the values it is built from leave undefined. The defaults are those of
  \<open>ruleId\<close>, \<open>kycStatus\<close>, \<open>amlStatus\<close>, \<open>reconciled\<close>, \<open>reconciledAt\<close> and
  \<open>metadata\<close>.
\<close>

definition or_default :: "'a option \<Rightarrow> 'a \<Rightarrow> 'a option" where
  "or_default v dflt = (case v of None \<Rightarrow> Some dflt | Some x \<Rightarrow> Some x)"

definition empty_metadata :: Metadata where
  "empty_metadata =
     \<lparr>jurisdiction = None, regulatoryCategory = None, reportingPeriod = None,
      notes_text = None\<rparr>"

definition schema_defaults :: "ComplianceRecordDoc \<Rightarrow> ComplianceRecordDoc" where
  "schema_defaults obj =
     obj\<lparr>d_ruleId := or_default (d_ruleId obj) 0,
         d_kycStatus := or_default (d_kycStatus obj) UNKNOWN,
         d_amlStatus := or_default (d_amlStatus obj) UNKNOWN,
         d_reconciled := or_default (d_reconciled obj) False,
         d_reconciledAt := or_default (d_reconciledAt obj) 0,
         d_metadata := or_default (d_metadata obj) empty_metadata\<rparr>"

text \<open>
  The document built from the data of a \<open>ComplianceRecordCreated\<close> movement, the same
  nine values \<open>fromEvent\<close> takes: the paths they do not give are undefined before the
  defaults apply.
\<close>

definition doc_from_event ::
  "string \<Rightarrow> string \<Rightarrow> string \<Rightarrow> int \<Rightarrow> TransactionSource \<Rightarrow> string \<Rightarrow> string \<Rightarrow> int \<Rightarrow> int
     \<Rightarrow> ComplianceRecordDoc" where
  "doc_from_event recId txHash recip rule src amount exec blockNo ts =
     schema_defaults
       \<lparr>d_recordId = Some recId, d_transactionHash = Some txHash, d_internalTxHash = None,
        d_ruleId = Some rule, d_source = Some src, d_recipient = Some recip,
        d_usdcAmount = Some amount, d_usdcAmountFormatted = None,
        d_kycStatus = None, d_amlStatus = None,
        d_timestamp = Some ts, d_timestampISO = None, d_blockNumber = Some blockNo,
        d_executor = Some exec, d_circleGatewayTxId = None, d_arcTransparencyId = None,
        d_reconciled = None, d_reconciledAt = None, d_reconciledAtISO = None,
        d_metadata = None\<rparr>"

text \<open>
  The \<open>pre('save')\<close> hook. A number is truthy when it is not 0, a date object always.
\<close>

definition truthy_number :: "int option \<Rightarrow> bool" where
  "truthy_number n = (case n of None \<Rightarrow> False | Some k \<Rightarrow> k \<noteq> 0)"

definition pre_save :: "ComplianceRecordDoc \<Rightarrow> ComplianceRecordDoc" where
  "pre_save this =
     (let this1 =
            (if truthy_number (d_timestamp this) \<and> d_timestampISO this = None
             then this\<lparr>d_timestampISO := Some (new_Date (the (d_timestamp this) * 1000))\<rparr>
             else this)
      in if truthy_number (d_reconciledAt this1) \<and> d_reconciledAtISO this1 = None
            \<and> d_reconciled this1 = Some True
         then this1\<lparr>d_reconciledAtISO := Some (new_Date (the (d_reconciledAt this1) * 1000))\<rparr>
         else this1)"

text \<open>
  The two instance methods, as the assignments they make to \<open>this\<close> before they hand
  it to \<open>save()\<close>. \<open>markReconciled\<close> reads the clock twice: \<open>Date.now()\<close> (\<open>now1\<close>)
  and \<open>new Date()\<close> (\<open>now2\<close>), both in milliseconds. The \<open>_saved\<close> variants are the
  document after the pre-save hook has run as well. Validation and the write to the
  database belong to Mongoose.
\<close>

definition markReconciled_doc :: "int \<Rightarrow> int \<Rightarrow> ComplianceRecordDoc \<Rightarrow> ComplianceRecordDoc" where
  "markReconciled_doc now1 now2 this =
     this\<lparr>d_reconciled := Some True, d_reconciledAt := Some (now1 div 1000),
          d_reconciledAtISO := Some (Date now2)\<rparr>"

definition updateComplianceStatus_doc ::
  "ComplianceStatus \<Rightarrow> ComplianceStatus \<Rightarrow> string option \<Rightarrow> string option
     \<Rightarrow> ComplianceRecordDoc \<Rightarrow> ComplianceRecordDoc" where
  "updateComplianceStatus_doc kyc aml gatewayTxId transparencyId this =
     (let this1 = this\<lparr>d_kycStatus := Some kyc, d_amlStatus := Some aml\<rparr>;
          this2 = (if truthy_string gatewayTxId
                   then this1\<lparr>d_circleGatewayTxId := gatewayTxId\<rparr> else this1)
      in if truthy_string transparencyId
         then this2\<lparr>d_arcTransparencyId := transparencyId\<rparr> else this2)"

definition markReconciled_saved :: "int \<Rightarrow> int \<Rightarrow> ComplianceRecordDoc \<Rightarrow> ComplianceRecordDoc" where
  "markReconciled_saved now1 now2 this = pre_save (markReconciled_doc now1 now2 this)"

definition updateComplianceStatus_saved ::
  "ComplianceStatus \<Rightarrow> ComplianceStatus \<Rightarrow> string option \<Rightarrow> string option
     \<Rightarrow> ComplianceRecordDoc \<Rightarrow> ComplianceRecordDoc" where
  "updateComplianceStatus_saved kyc aml gatewayTxId transparencyId this =
     pre_save (updateComplianceStatus_doc kyc aml gatewayTxId transparencyId this)"

section \<open>The payroll automation service\<close>

text \<open>
  The class \<open>PayrollAutomationService\<close> (services/payrollAutomation.js, the file
  src/unnamed/part\_007). It talks to three collaborators: the treasury contract
  (through ethers), the compliance provider (\<open>CircleGatewayService\<close>) and the submitted
  transaction it waits for. Each of their calls is an entry of a trace, in the order the
  service makes them; what a call answers is given by the environment and may depend on
  every call made before it. An \<open>await\<close> that rejects is a thrown \<open>js_error\<close>.
\<close>

datatype call =
  GetDueScheduledDistributions
  | GetScheduledDistribution nat
  | PerformComplianceCheck string string string
  | ExecuteScheduledDistributions "nat list"
  | WaitForTransaction string

record schedule =
  s_recipient :: string
  s_amount :: nat
  s_interval :: nat
  s_nextDistribution :: nat
  s_active :: bool
  s_totalDistributed :: nat

record compliance_check =
  c_transactionId :: string
  c_kycStatus :: string
  c_amlStatus :: string
  c_riskScore :: int

record submitted_tx =
  tx_hash :: string

record receipt =
  rc_blockNumber :: nat
  rc_gasUsed :: nat

record config =
  requireKYC :: bool
  requireAML :: bool

record environment =
  contract_getDueScheduledDistributions :: "call list \<Rightarrow> js_error + nat list"
  contract_getScheduledDistribution :: "call list \<Rightarrow> nat \<Rightarrow> js_error + schedule"
  gateway_performComplianceCheck ::
    "call list \<Rightarrow> string \<Rightarrow> string \<Rightarrow> string \<Rightarrow> js_error + compliance_check"
  contract_executeScheduledDistributions :: "call list \<Rightarrow> nat list \<Rightarrow> js_error + submitted_tx"
  tx_wait :: "call list \<Rightarrow> submitted_tx \<Rightarrow> js_error + receipt"
  formatUnits :: "nat \<Rightarrow> string"

text \<open>\<open>n.toString()\<close> of a non-negative integer: its decimal digits.\<close>

function toString :: "nat \<Rightarrow> string" where
  "toString n =
     (if n < 10 then [''0123456789'' ! n]
      else toString (n div 10) @ [''0123456789'' ! (n mod 10)])"
  by pat_completeness auto
termination
  by (relation "measure id") auto

record distribution_result =
  res_scheduleId :: string
  res_recipient :: string
  res_amount :: string
  res_txHash :: string
  res_blockNumber :: nat
  res_circleGatewayTxId :: string
  res_gasUsed :: string

text \<open>
  \<open>executeScheduledDistribution(scheduleId)\<close>. The result is what the promise settles
  to (\<open>Inl\<close> a rejection, \<open>Inr None\<close> the value \<open>null\<close>, \<open>Inr (Some r)\<close> the result
  object) together with the trace of calls. The \<open>catch\<close> block rethrows what it caught.
\<close>

definition executeScheduledDistribution ::
  "config \<Rightarrow> environment \<Rightarrow> nat \<Rightarrow> call list
     \<Rightarrow> (js_error + distribution_result option) \<times> call list" where
  "executeScheduledDistribution cfg env scheduleId trace =
     (let trace1 = trace @ [GetScheduledDistribution scheduleId] in
      case contract_getScheduledDistribution env trace scheduleId of
        Inl e \<Rightarrow> (Inl e, trace1)
      | Inr schedule \<Rightarrow>
          let amountFormatted = formatUnits env (s_amount schedule);
              trace2 = trace1 @ [PerformComplianceCheck (s_recipient schedule) amountFormatted
                               ''SCHEDULED_DISTRIBUTION'']
          in
          case gateway_performComplianceCheck env trace1 (s_recipient schedule) amountFormatted
                 ''SCHEDULED_DISTRIBUTION'' of
            Inl e \<Rightarrow> (Inl e, trace2)
          | Inr complianceCheck \<Rightarrow>
              if requireKYC cfg \<and> c_kycStatus complianceCheck \<noteq> ''VERIFIED''
                   \<and> c_kycStatus complianceCheck \<noteq> ''EXEMPT''
              then (Inr None, trace2)
              else if requireAML cfg \<and> c_amlStatus complianceCheck \<noteq> ''VERIFIED''
                   \<and> c_amlStatus complianceCheck \<noteq> ''EXEMPT''
              then (Inr None, trace2)
              else
                let trace3 = trace2 @ [ExecuteScheduledDistributions [scheduleId]] in
                case contract_executeScheduledDistributions env trace2 [scheduleId] of
                  Inl e \<Rightarrow> (Inl e, trace3)
                | Inr tx \<Rightarrow>
                    let trace4 = trace3 @ [WaitForTransaction (tx_hash tx)] in
                    case tx_wait env trace3 tx of
                      Inl e \<Rightarrow> (Inl e, trace4)
                    | Inr rcpt \<Rightarrow>
                        (Inr (Some \<lparr>res_scheduleId = toString scheduleId,
                                     res_recipient = s_recipient schedule,
                                     res_amount = amountFormatted,
                                     res_txHash = tx_hash tx,
                                     res_blockNumber = rc_blockNumber rcpt,
                                     res_circleGatewayTxId = c_transactionId complianceCheck,
                                     res_gasUsed = toString (rc_gasUsed rcpt)\<rparr>), trace4))"

text \<open>
  The \<open>for\<close> loop of \<open>checkScheduledDistributions\<close>: the inner \<open>try\<close> catches whatever
  one schedule throws and the loop goes on; a result that is not \<open>null\<close> is pushed.
\<close>

fun execute_each ::
  "config \<Rightarrow> environment \<Rightarrow> nat list \<Rightarrow> distribution_result list \<Rightarrow> call list
     \<Rightarrow> distribution_result list \<times> call list" where
  "execute_each cfg env [] results trace = (results, trace)"
| "execute_each cfg env (scheduleId # rest) results trace =
     (case executeScheduledDistribution cfg env scheduleId trace of
        (Inr (Some result), trace') \<Rightarrow> execute_each cfg env rest (results @ [result]) trace'
      | (Inr None, trace') \<Rightarrow> execute_each cfg env rest results trace'
      | (Inl e, trace') \<Rightarrow> execute_each cfg env rest results trace')"

record check_result =
  count :: nat
  results :: "distribution_result list option"
  error :: "string option"

definition message :: "js_error \<Rightarrow> string" where
  "message e = (case e of RangeError \<Rightarrow> ''Invalid time value'' | Error m \<Rightarrow> m)"

definition checkScheduledDistributions ::
  "config \<Rightarrow> environment \<Rightarrow> call list \<Rightarrow> check_result \<times> call list" where
  "checkScheduledDistributions cfg env trace =
     (let trace1 = trace @ [GetDueScheduledDistributions] in
      case contract_getDueScheduledDistributions env trace of
        Inl e \<Rightarrow> (\<lparr>count = 0, results = None, error = Some (message e)\<rparr>, trace1)
      | Inr dueSchedules \<Rightarrow>
          if length dueSchedules = 0 then (\<lparr>count = 0, results = None, error = None\<rparr>, trace1)
          else
            let (rs, trace2) = execute_each cfg env dueSchedules [] trace1
            in (\<lparr>count = length rs, results = Some rs, error = None\<rparr>, trace2))"

text \<open>
  What each schedule of a list settles to, in turn, when the list is run from a given
  trace: the reference the loop is compared with.
\<close>

fun outcomes ::
  "config \<Rightarrow> environment \<Rightarrow> nat list \<Rightarrow> call list \<Rightarrow> (js_error + distribution_result option) list"
  where
  "outcomes cfg env [] trace = []"
| "outcomes cfg env (scheduleId # rest) trace =
     fst (executeScheduledDistribution cfg env scheduleId trace)
     # outcomes cfg env rest (snd (executeScheduledDistribution cfg env scheduleId trace))"

fun executed :: "(js_error + distribution_result option) list \<Rightarrow> distribution_result list" where
  "executed [] = []"
| "executed (Inr (Some r) # os) = r # executed os"
| "executed (_ # os) = executed os"

definition is_attempt :: "call \<Rightarrow> bool" where
  "is_attempt c = (case c of GetScheduledDistribution _ \<Rightarrow> True | _ \<Rightarrow> False)"

definition is_submission :: "call \<Rightarrow> bool" where
  "is_submission c = (case c of ExecuteScheduledDistributions _ \<Rightarrow> True | _ \<Rightarrow> False)"

section \<open>The on-chain treasury: authorization ledger and allocation rules\<close>

text \<open>
  The Treasury contract itself is not among the source files (only its README, its ABI
  fragments and its callers are); every definition of this section is modelled from the
  spec, sections 3, 4.1, 4.2, 4.5 and 7.
\<close>

text \<open>
  Modelled from the spec: the contract's errors are missing. The taxonomy of spec
  section 7.
\<close>

datatype treasury_error =
  AuthorizationError | NotFoundError | StateError | InsufficientFundsError
  | ValidationError | CooldownError | BudgetExceededError

text \<open>
  Modelled from the spec: the contract's data types are missing (spec section 3).
  Identities and recipients are natural numbers, 0 standing for the invalid (zero)
  recipient; amounts and times are natural numbers. The confirming identities of a
  pending transaction are listed in the order they confirmed. One state holds the shared
  balance, the signer set with its threshold and configuring authority, the pending
  transactions, the allocation rules and the append-only compliance ledger.
\<close>

datatype AllocationKind = PERCENTAGE | FIXED_AMOUNT | BALANCE_THRESHOLD

record pending_transaction =
  pt_recipient :: nat
  pt_amount :: nat
  pt_payload :: string
  pt_confirmations :: "nat list"
  pt_executed :: bool

record allocation_rule =
  ar_kind :: AllocationKind
  ar_recipient :: nat
  ar_value :: nat
  ar_budgetLimit :: nat
  ar_spent :: nat
  ar_priority :: nat
  ar_cooldown :: nat
  ar_lastExecuted :: nat
  ar_active :: bool

record movement_record =
  mr_sequence :: nat
  mr_internalTxRef :: nat
  mr_ruleId :: nat
  mr_source :: TransactionSource
  mr_recipient :: nat
  mr_amount :: nat
  mr_kycStatus :: ComplianceStatus
  mr_amlStatus :: ComplianceStatus
  mr_executor :: nat

record treasury =
  t_authority :: nat
  t_signers :: "nat list"
  t_threshold :: nat
  t_balance :: nat
  t_transactions :: "nat \<rightharpoonup> pending_transaction"
  t_nextTxId :: nat
  t_rules :: "nat \<rightharpoonup> allocation_rule"
  t_nextRuleId :: nat
  t_records :: "movement_record list"

text \<open>
  Modelled from the spec: the Treasury contract's constructor is missing. A new
  treasury has its signers, threshold and balance, no transaction, no rule and an empty
  ledger; rule ids start at 1 (rule id 0 marks a manual movement).
\<close>

definition new_treasury :: "nat \<Rightarrow> nat list \<Rightarrow> nat \<Rightarrow> nat \<Rightarrow> treasury" where
  "new_treasury auth sgs thr bal =
     \<lparr>t_authority = auth, t_signers = sgs, t_threshold = thr, t_balance = bal,
      t_transactions = Map.empty, t_nextTxId = 0, t_rules = Map.empty, t_nextRuleId = 1,
      t_records = []\<rparr>"

text \<open>
  Modelled from the spec: the contract's \<open>recordMovement\<close> is missing (spec 4.5). It
  appends one record with kycStatus = amlStatus = UNKNOWN; the monotonic sequence counter
  is the length of the ledger. The external transaction reference and the timestamp come
  from the host chain and are left out.
\<close>

definition recordMovement ::
  "nat \<Rightarrow> nat \<Rightarrow> TransactionSource \<Rightarrow> nat \<Rightarrow> nat \<Rightarrow> nat \<Rightarrow> treasury \<Rightarrow> treasury" where
  "recordMovement internalTxRef rule src recip amount exec s =
     s\<lparr>t_records := t_records s @
          [\<lparr>mr_sequence = length (t_records s), mr_internalTxRef = internalTxRef,
            mr_ruleId = rule, mr_source = src, mr_recipient = recip, mr_amount = amount,
            mr_kycStatus = UNKNOWN, mr_amlStatus = UNKNOWN, mr_executor = exec\<rparr>]\<rparr>"

subsection \<open>AuthorizationLedger (spec 4.1)\<close>

text \<open>
  Modelled from the spec: the contract's \<open>propose\<close> is missing. It fails with
  ValidationError on a zero amount or an invalid recipient and otherwise stores a new
  pending transaction under the next id.
\<close>

definition propose :: "nat \<Rightarrow> nat \<Rightarrow> nat \<Rightarrow> string \<Rightarrow> treasury \<Rightarrow> treasury_error + (nat \<times> treasury)"
  where
  "propose caller recip amount payload s =
     (if amount = 0 \<or> recip = 0 then Inl ValidationError
      else Inr (t_nextTxId s,
                s\<lparr>t_transactions := (t_transactions s)(t_nextTxId s \<mapsto>
                       \<lparr>pt_recipient = recip, pt_amount = amount, pt_payload = payload,
                        pt_confirmations = [], pt_executed = False\<rparr>),
                   t_nextTxId := Suc (t_nextTxId s)\<rparr>))"

text \<open>
  Modelled from the spec: the execution step shared by \<open>confirm\<close> and \<open>execute\<close> is
  missing. It debits the balance, writes the ComplianceRecord with source MULTISIG and
  marks the transaction executed; with insufficient funds the whole call aborts.
\<close>

definition perform ::
  "nat \<Rightarrow> nat \<Rightarrow> pending_transaction \<Rightarrow> treasury \<Rightarrow> treasury_error + treasury" where
  "perform caller txId tx s =
     (if t_balance s < pt_amount tx then Inl InsufficientFundsError
      else Inr (recordMovement txId 0 MULTISIG_TRANSACTION (pt_recipient tx) (pt_amount tx)
                  caller
                  (s\<lparr>t_balance := t_balance s - pt_amount tx,
                     t_transactions := (t_transactions s)(txId \<mapsto> tx\<lparr>pt_executed := True\<rparr>)\<rparr>)))"

text \<open>
  Modelled from the spec: the contract's \<open>confirm\<close> is missing. On an executed
  transaction it fails with StateError whoever calls (spec 8: any further confirm call on
  that id fails with StateError); on one not yet executed it fails with
  AuthorizationError if the caller is not a current signer and with StateError if the
  caller has already confirmed (spec 4.1); an unknown id is a NotFoundError (spec 7).
  Otherwise the confirmation is added and, if the confirmations reach the threshold, the
  transaction is executed inside the same call.
\<close>

definition confirm :: "nat \<Rightarrow> nat \<Rightarrow> treasury \<Rightarrow> treasury_error + treasury" where
  "confirm caller txId s =
     (case t_transactions s txId of
        None \<Rightarrow>
          if caller \<notin> set (t_signers s) then Inl AuthorizationError else Inl NotFoundError
      | Some tx \<Rightarrow>
          if pt_executed tx then Inl StateError
          else if caller \<notin> set (t_signers s) then Inl AuthorizationError
          else if caller \<in> set (pt_confirmations tx) then Inl StateError
          else
            let tx' = tx\<lparr>pt_confirmations := pt_confirmations tx @ [caller]\<rparr> in
            if t_threshold s \<le> length (pt_confirmations tx')
            then perform caller txId tx' s
            else Inr (s\<lparr>t_transactions := (t_transactions s)(txId \<mapsto> tx')\<rparr>))"

text \<open>
  Modelled from the spec: the contract's \<open>revoke\<close> is missing. It removes the caller's
  confirmation and fails if the transaction is already executed.
\<close>

definition revoke :: "nat \<Rightarrow> nat \<Rightarrow> treasury \<Rightarrow> treasury_error + treasury" where
  "revoke caller txId s =
     (case t_transactions s txId of
        None \<Rightarrow> Inl NotFoundError
      | Some tx \<Rightarrow>
          if pt_executed tx then Inl StateError
          else Inr (s\<lparr>t_transactions := (t_transactions s)(txId \<mapsto>
                         tx\<lparr>pt_confirmations := removeAll caller (pt_confirmations tx)\<rparr>)\<rparr>))"

text \<open>
  Modelled from the spec: the contract's \<open>execute\<close> is missing. It fails with
  StateError if the transaction is already executed or the threshold is unmet.
\<close>

definition execute :: "nat \<Rightarrow> nat \<Rightarrow> treasury \<Rightarrow> treasury_error + treasury" where
  "execute caller txId s =
     (case t_transactions s txId of
        None \<Rightarrow> Inl NotFoundError
      | Some tx \<Rightarrow>
          if pt_executed tx \<or> length (pt_confirmations tx) < t_threshold s then Inl StateError
          else perform caller txId tx s)"

text \<open>
  Modelled from the spec: the contract's \<open>addSigner\<close>, \<open>removeSigner\<close> and
  \<open>setThreshold\<close> are missing. They are restricted to the configuring authority, keep
  threshold \<le> |signers| and never execute a pending transaction; removing a signer drops
  that signer's confirmation from the transactions not yet executed, so that
  confirmations stay a subset of the current signers.
\<close>

definition addSigner :: "nat \<Rightarrow> nat \<Rightarrow> treasury \<Rightarrow> treasury_error + treasury" where
  "addSigner caller signer s =
     (if caller \<noteq> t_authority s then Inl AuthorizationError
      else if signer \<in> set (t_signers s) then Inl ValidationError
      else Inr (s\<lparr>t_signers := t_signers s @ [signer]\<rparr>))"

definition drop_confirmation :: "nat \<Rightarrow> pending_transaction \<Rightarrow> pending_transaction" where
  "drop_confirmation signer tx =
     (if pt_executed tx then tx
      else tx\<lparr>pt_confirmations := removeAll signer (pt_confirmations tx)\<rparr>)"

definition removeSigner :: "nat \<Rightarrow> nat \<Rightarrow> treasury \<Rightarrow> treasury_error + treasury" where
  "removeSigner caller signer s =
     (if caller \<noteq> t_authority s then Inl AuthorizationError
      else if signer \<notin> set (t_signers s)
              \<or> length (removeAll signer (t_signers s)) < t_threshold s
      then Inl ValidationError
      else Inr (s\<lparr>t_signers := removeAll signer (t_signers s),
                   t_transactions :=
                     (\<lambda>txId. map_option (drop_confirmation signer) (t_transactions s txId))\<rparr>))"

definition setThreshold :: "nat \<Rightarrow> nat \<Rightarrow> treasury \<Rightarrow> treasury_error + treasury" where
  "setThreshold caller n s =
     (if caller \<noteq> t_authority s then Inl AuthorizationError
      else if n = 0 \<or> length (t_signers s) < n then Inl ValidationError
      else Inr (s\<lparr>t_threshold := n\<rparr>))"

subsection \<open>AllocationRuleEngine (spec 4.2)\<close>

text \<open>
  Modelled from the spec: the contract's \<open>createAllocationRule\<close> and
  \<open>updateAllocationRule\<close> are missing. A rule starts active with spent = 0 and
  lastExecuted = 0; a malformed recipient, a zero amount or an out-of-range percentage is
  a ValidationError.
\<close>

definition createAllocationRule ::
  "nat \<Rightarrow> AllocationKind \<Rightarrow> nat \<Rightarrow> nat \<Rightarrow> nat \<Rightarrow> nat \<Rightarrow> treasury
     \<Rightarrow> treasury_error + (nat \<times> treasury)" where
  "createAllocationRule recip kind val budgetLimit priority cooldown s =
     (if recip = 0 \<or> (kind = PERCENTAGE \<and> (val = 0 \<or> 10000 < val))
          \<or> (kind = FIXED_AMOUNT \<and> val = 0)
      then Inl ValidationError
      else Inr (t_nextRuleId s,
                s\<lparr>t_rules := (t_rules s)(t_nextRuleId s \<mapsto>
                       \<lparr>ar_kind = kind, ar_recipient = recip, ar_value = val,
                        ar_budgetLimit = budgetLimit, ar_spent = 0, ar_priority = priority,
                        ar_cooldown = cooldown, ar_lastExecuted = 0, ar_active = True\<rparr>),
                   t_nextRuleId := Suc (t_nextRuleId s)\<rparr>))"

definition updateAllocationRule :: "nat \<Rightarrow> bool \<Rightarrow> treasury \<Rightarrow> treasury_error + treasury" where
  "updateAllocationRule rid active s =
     (case t_rules s rid of
        None \<Rightarrow> Inl NotFoundError
      | Some rule \<Rightarrow> Inr (s\<lparr>t_rules := (t_rules s)(rid \<mapsto> rule\<lparr>ar_active := active\<rparr>)\<rparr>))"

text \<open>
  Modelled from the spec: the contract's eligibility and amount computations are
  missing. PERCENTAGE: balance > 0, amount = balance * value / 10000 (basis points);
  FIXED\_AMOUNT: balance \<ge> value, amount = value; BALANCE\_THRESHOLD: balance > value,
  amount = balance - value. The computed amount is clamped to the remaining budget
  (budgetLimit - spent; unlimited if budgetLimit = 0). A rule is eligible when it is
  active, its cooldown has elapsed since its last execution and its kind's condition
  holds.
\<close>

definition kind_eligible :: "allocation_rule \<Rightarrow> nat \<Rightarrow> bool" where
  "kind_eligible rule bal =
     (case ar_kind rule of
        PERCENTAGE \<Rightarrow> 0 < bal
      | FIXED_AMOUNT \<Rightarrow> ar_value rule \<le> bal
      | BALANCE_THRESHOLD \<Rightarrow> ar_value rule < bal)"

definition computed_amount :: "allocation_rule \<Rightarrow> nat \<Rightarrow> nat" where
  "computed_amount rule bal =
     (case ar_kind rule of
        PERCENTAGE \<Rightarrow> bal * ar_value rule div 10000
      | FIXED_AMOUNT \<Rightarrow> ar_value rule
      | BALANCE_THRESHOLD \<Rightarrow> bal - ar_value rule)"

definition clamped_amount :: "allocation_rule \<Rightarrow> nat \<Rightarrow> nat" where
  "clamped_amount rule bal =
     (if ar_budgetLimit rule = 0 then computed_amount rule bal
      else min (computed_amount rule bal) (ar_budgetLimit rule - ar_spent rule))"

definition cooldown_elapsed :: "allocation_rule \<Rightarrow> nat \<Rightarrow> bool" where
  "cooldown_elapsed rule now =
     (ar_lastExecuted rule = 0 \<or> ar_lastExecuted rule + ar_cooldown rule \<le> now)"

definition rule_eligible :: "treasury \<Rightarrow> nat \<Rightarrow> nat \<Rightarrow> bool" where
  "rule_eligible s now rid =
     (case t_rules s rid of
        None \<Rightarrow> False
      | Some rule \<Rightarrow>
          ar_active rule \<and> cooldown_elapsed rule now \<and> kind_eligible rule (t_balance s))"

text \<open>
  Modelled from the spec: the contract's per-rule execution is missing. An ineligible
  rule, a clamped amount of zero or an insufficient balance skips the rule (the state
  is unchanged and nothing fails); otherwise the balance is debited, spent grows by the
  clamped amount, lastExecuted is set and one ComplianceRecord with source
  ALLOCATION\_RULE is written. The boolean tells whether the rule executed.
\<close>

definition execute_allocation :: "nat \<Rightarrow> nat \<Rightarrow> nat \<Rightarrow> treasury \<Rightarrow> bool \<times> treasury" where
  "execute_allocation caller now rid s =
     (case t_rules s rid of
        None \<Rightarrow> (False, s)
      | Some rule \<Rightarrow>
          let amount = clamped_amount rule (t_balance s) in
          if \<not> rule_eligible s now rid \<or> amount = 0 \<or> t_balance s < amount
          then (False, s)
          else (True,
                recordMovement 0 rid ALLOCATION_RULE (ar_recipient rule) amount caller
                  (s\<lparr>t_balance := t_balance s - amount,
                     t_rules := (t_rules s)(rid \<mapsto>
                        rule\<lparr>ar_spent := ar_spent rule + amount,
                             ar_lastExecuted := now\<rparr>)\<rparr>)))"

text \<open>
  Modelled from the spec: the contract's batch entry points are missing.
  \<open>executeAllocations\<close> executes the given ids in the given order, each step reading
  the balance the earlier steps left, and returns the count executed;
  \<open>executeAllEligibleAllocations\<close> collects the eligible ids and stable-sorts them by
  priority descending, id ascending.
\<close>

fun executeAllocations :: "nat \<Rightarrow> nat \<Rightarrow> nat list \<Rightarrow> treasury \<Rightarrow> nat \<times> treasury" where
  "executeAllocations caller now [] s = (0, s)"
| "executeAllocations caller now (rid # rids) s =
     (let (done, s1) = execute_allocation caller now rid s;
          (n, s2) = executeAllocations caller now rids s1
      in ((if done then 1 else 0) + n, s2))"

definition eligible_sorted :: "treasury \<Rightarrow> nat \<Rightarrow> nat list" where
  "eligible_sorted s now =
     sort_key (\<lambda>rid. case t_rules s rid of
                          None \<Rightarrow> 0
                        | Some rule \<Rightarrow> - int (ar_priority rule))
       (filter (rule_eligible s now) [1 ..< t_nextRuleId s])"

definition executeAllEligibleAllocations :: "nat \<Rightarrow> nat \<Rightarrow> treasury \<Rightarrow> nat \<times> treasury" where
  "executeAllEligibleAllocations caller now s =
     executeAllocations caller now (eligible_sorted s now) s"

subsection \<open>Sequences of calls\<close>

text \<open>
  Modelled from the spec: the contract's dispatch of calls is missing. The entry points
  of spec section 6 that concern the ledger and the allocation engine, as one datatype.
  A single-transaction entry point that fails has no effect (spec section 7: the call
  is all-or-nothing), so a run of calls keeps the state where one fails; a batch entry
  point never fails.
\<close>

datatype operation =
  Propose nat nat nat string
  | Confirm nat nat
  | Revoke nat nat
  | Execute nat nat
  | AddSigner nat nat
  | RemoveSigner nat nat
  | SetThreshold nat nat
  | CreateAllocationRule nat AllocationKind nat nat nat nat
  | UpdateAllocationRule nat bool
  | ExecuteAllocations nat nat "nat list"
  | ExecuteAllEligibleAllocations nat nat

definition or_unchanged :: "treasury \<Rightarrow> treasury_error + treasury \<Rightarrow> treasury" where
  "or_unchanged s r = (case r of Inl e \<Rightarrow> s | Inr s' \<Rightarrow> s')"

fun apply_operation :: "operation \<Rightarrow> treasury \<Rightarrow> treasury" where
  "apply_operation (Propose caller recip amount payload) s =
     or_unchanged s (map_sum id snd (propose caller recip amount payload s))"
| "apply_operation (Confirm caller txId) s = or_unchanged s (confirm caller txId s)"
| "apply_operation (Revoke caller txId) s = or_unchanged s (revoke caller txId s)"
| "apply_operation (Execute caller txId) s = or_unchanged s (execute caller txId s)"
| "apply_operation (AddSigner caller signer) s = or_unchanged s (addSigner caller signer s)"
| "apply_operation (RemoveSigner caller signer) s =
     or_unchanged s (removeSigner caller signer s)"
| "apply_operation (SetThreshold caller n) s = or_unchanged s (setThreshold caller n s)"
| "apply_operation (CreateAllocationRule recip kind val budgetLimit priority cooldown) s =
     or_unchanged s
       (map_sum id snd (createAllocationRule recip kind val budgetLimit priority cooldown s))"
| "apply_operation (UpdateAllocationRule rid active) s =
     or_unchanged s (updateAllocationRule rid active s)"
| "apply_operation (ExecuteAllocations caller now rids) s =
     snd (executeAllocations caller now rids s)"
| "apply_operation (ExecuteAllEligibleAllocations caller now) s =
     snd (executeAllEligibleAllocations caller now s)"

fun run :: "operation list \<Rightarrow> treasury \<Rightarrow> treasury" where
  "run [] s = s"
| "run (op # ops) s = run ops (apply_operation op s)"

text \<open>
  Modelled from the spec: the contract's read views are missing. How many times a
  transaction id has been executed (its MULTISIG records in the ledger), whether it is
  executed or still pending, and how many confirmations it has.
\<close>

definition executions :: "treasury \<Rightarrow> nat \<Rightarrow> nat" where
  "executions s txId =
     length (filter (\<lambda>r. mr_source r = MULTISIG_TRANSACTION \<and> mr_internalTxRef r = txId)
               (t_records s))"

definition is_executed :: "treasury \<Rightarrow> nat \<Rightarrow> bool" where
  "is_executed s txId =
     (case t_transactions s txId of None \<Rightarrow> False | Some tx \<Rightarrow> pt_executed tx)"

definition is_pending :: "treasury \<Rightarrow> nat \<Rightarrow> bool" where
  "is_pending s txId =
     (case t_transactions s txId of None \<Rightarrow> False | Some tx \<Rightarrow> \<not> pt_executed tx)"

definition confirmation_count :: "treasury \<Rightarrow> nat \<Rightarrow> nat" where
  "confirmation_count s txId =
     (case t_transactions s txId of None \<Rightarrow> 0 | Some tx \<Rightarrow> length (pt_confirmations tx))"

section \<open>Properties of the compliance record models\<close>

subsection \<open>Helper facts\<close>

lemma valid_time_value_floor_seconds:
  assumes "valid_time_value clock"
  shows "valid_time_value (clock div 1000 * 1000)"
proof -
  have "clock div 1000 * 1000 + clock mod 1000 = clock" by (rule div_mult_mod_eq)
  moreover have "0 \<le> clock mod 1000" by simp
  ultimately have up: "clock div 1000 * 1000 \<le> clock" by linarith
  have "- 8640000000000000 \<le> clock"
    using assms unfolding valid_time_value_def by linarith
  then have "(- 8640000000000000) div 1000 \<le> clock div 1000"
    by (rule zdiv_mono1) simp
  then have lo: "- 8640000000000000 \<le> clock div 1000 * 1000" by simp
  from up lo assms show ?thesis unfolding valid_time_value_def by linarith
qed

lemma markReconciled_valid_clock:
  "valid_time_value clock \<Longrightarrow>
   markReconciled clock r =
     Inr (r\<lparr>reconciled := True, reconciledAt := clock div 1000,
            reconciledAtISO := Some (toISOString (clock div 1000 * 1000))\<rparr>)"
  by (simp add: markReconciled_def timestampToISO_def valid_time_value_floor_seconds Let_def)

lemma markReconciled_Inr:
  "markReconciled clock r = Inr r1 \<Longrightarrow>
   r1 = r\<lparr>reconciled := True, reconciledAt := clock div 1000,
          reconciledAtISO := Some (toISOString (clock div 1000 * 1000))\<rparr>
   \<and> timestampToISO (clock div 1000) = Inr (toISOString (clock div 1000 * 1000))"
  by (auto simp: markReconciled_def timestampToISO_def Let_def split: sum.splits if_splits)

lemma pre_save_keeps:
  "d_kycStatus (pre_save d) = d_kycStatus d"
  "d_amlStatus (pre_save d) = d_amlStatus d"
  "d_circleGatewayTxId (pre_save d) = d_circleGatewayTxId d"
  "d_arcTransparencyId (pre_save d) = d_arcTransparencyId d"
  "d_reconciled (pre_save d) = d_reconciled d"
  "d_reconciledAt (pre_save d) = d_reconciledAt d"
  by (simp_all add: pre_save_def Let_def)

lemma pre_save_keeps_reconciledAtISO:
  "d_reconciledAtISO d \<noteq> None \<Longrightarrow> d_reconciledAtISO (pre_save d) = d_reconciledAtISO d"
  by (simp add: pre_save_def Let_def)

lemma check_string_mem: "e \<in> set (check_string f ok msg) \<Longrightarrow> e = msg \<and> f \<noteq> None"
  by (auto simp: check_string_def split: option.splits if_splits)

lemma check_number_mem: "e \<in> set (check_number f msg) \<Longrightarrow> e = msg \<and> f \<noteq> None"
  by (auto simp: check_number_def split: option.splits if_splits)

definition sample_record :: ComplianceRecord where
  "sample_record =
     \<lparr>recordId = ''0xr1'', transactionHash = ''0xt1'', internalTxHash = ''0xr1'',
      ruleId = 3, source = ALLOCATION_RULE, recipient = ''0xaa'', usdcAmount = ''2500000'',
      usdcAmountFormatted = 5 / 2, kycStatus = VERIFIED, amlStatus = PENDING,
      timestamp = 1700000000, timestampISO = ''2023-11-14T22:13:20.000Z'',
      blockNumber = 42, executor = ''0xbb'',
      circleGatewayTxId = Some ''cg_tx_1'', arcTransparencyId = None,
      reconciled = False, reconciledAt = 0, reconciledAtISO = None,
      metadata = None, createdAt = None, updatedAt = None\<rparr>"

definition sample_doc :: ComplianceRecordDoc where
  "sample_doc =
     doc_from_event ''0xr1'' ''0xt1'' ''0xaa'' 3 ALLOCATION_RULE ''2500000'' ''0xbb'' 42
       1700000000"

subsection \<open>C3: the status update\<close>

text \<open>
  C3. For every record and every pair of supplied statuses, the status update (the
  TypeScript utility and the Mongoose method, before and after the pre-save hook)
  overwrites kycStatus and amlStatus with the supplied values; it writes
  circleGatewayTxId, respectively arcTransparencyId, when the supplied value is a
  non-empty string, and keeps the record's existing value of that field otherwise.
\<close>

theorem updateComplianceStatus_overwrites_status_keeps_ids:
  "kycStatus (updateComplianceStatus r kyc aml g t) = kyc
   \<and> amlStatus (updateComplianceStatus r kyc aml g t) = aml
   \<and> circleGatewayTxId (updateComplianceStatus r kyc aml g t)
       = (if g \<noteq> None \<and> g \<noteq> Some [] then g else circleGatewayTxId r)
   \<and> arcTransparencyId (updateComplianceStatus r kyc aml g t)
       = (if t \<noteq> None \<and> t \<noteq> Some [] then t else arcTransparencyId r)
   \<and> d_kycStatus (updateComplianceStatus_doc kyc aml g t d) = Some kyc
   \<and> d_amlStatus (updateComplianceStatus_doc kyc aml g t d) = Some aml
   \<and> d_circleGatewayTxId (updateComplianceStatus_doc kyc aml g t d)
       = (if g \<noteq> None \<and> g \<noteq> Some [] then g else d_circleGatewayTxId d)
   \<and> d_arcTransparencyId (updateComplianceStatus_doc kyc aml g t d)
       = (if t \<noteq> None \<and> t \<noteq> Some [] then t else d_arcTransparencyId d)
   \<and> d_kycStatus (updateComplianceStatus_saved kyc aml g t d) = Some kyc
   \<and> d_amlStatus (updateComplianceStatus_saved kyc aml g t d) = Some aml
   \<and> d_circleGatewayTxId (updateComplianceStatus_saved kyc aml g t d)
       = (if g \<noteq> None \<and> g \<noteq> Some [] then g else d_circleGatewayTxId d)
   \<and> d_arcTransparencyId (updateComplianceStatus_saved kyc aml g t d)
       = (if t \<noteq> None \<and> t \<noteq> Some [] then t else d_arcTransparencyId d)"
  by (auto simp: updateComplianceStatus_def updateComplianceStatus_doc_def
        updateComplianceStatus_saved_def pre_save_keeps js_or_def truthy_string_def Let_def
      split: option.splits)

subsection \<open>C4: the initial state of a record\<close>

text \<open>
  C4. Every record created from an executed movement starts with kycStatus = UNKNOWN,
  amlStatus = UNKNOWN, reconciled = false and reconciledAt = 0, whatever the values of
  the movement: every record \<open>fromEvent\<close> returns (it returns one whenever the timestamp
  is a date JavaScript can render), the document built from the same values under the
  schema defaults, and any document for the paths its input leaves undefined.
\<close>

theorem fromEvent_initial_status:
  "(fromEvent fmt recId txHash recip rule src amount exec blockNo ts = Inr r \<longrightarrow>
      kycStatus r = UNKNOWN \<and> amlStatus r = UNKNOWN \<and> reconciled r = False
      \<and> reconciledAt r = 0)
   \<and> (valid_time_value (ts * 1000) \<longrightarrow>
        (\<exists>r'. fromEvent fmt recId txHash recip rule src amount exec blockNo ts = Inr r'))
   \<and> d_kycStatus (doc_from_event recId txHash recip rule src amount exec blockNo ts)
        = Some UNKNOWN
   \<and> d_amlStatus (doc_from_event recId txHash recip rule src amount exec blockNo ts)
        = Some UNKNOWN
   \<and> d_reconciled (doc_from_event recId txHash recip rule src amount exec blockNo ts)
        = Some False
   \<and> d_reconciledAt (doc_from_event recId txHash recip rule src amount exec blockNo ts)
        = Some 0
   \<and> (d_kycStatus obj = None \<longrightarrow> d_kycStatus (schema_defaults obj) = Some UNKNOWN)
   \<and> (d_amlStatus obj = None \<longrightarrow> d_amlStatus (schema_defaults obj) = Some UNKNOWN)
   \<and> (d_reconciled obj = None \<longrightarrow> d_reconciled (schema_defaults obj) = Some False)
   \<and> (d_reconciledAt obj = None \<longrightarrow> d_reconciledAt (schema_defaults obj) = Some 0)"
  by (auto simp: fromEvent_def timestampToISO_def doc_from_event_def schema_defaults_def
        or_default_def split: if_splits)

theorem fromEvent_initial_status_witness:
  "\<exists>r. fromEvent (\<lambda>s. 5 / 2) ''0xr1'' ''0xt1'' ''0xaa'' 3 ALLOCATION_RULE ''2500000'' ''0xbb''
          42 1700000000 = Inr r
       \<and> kycStatus r = UNKNOWN \<and> amlStatus r = UNKNOWN \<and> reconciled r = False
       \<and> reconciledAt r = 0 \<and> timestampISO r = ''2023-11-14T22:13:20.000Z''"
proof -
  have iso: "timestampToISO 1700000000 = Inr ''2023-11-14T22:13:20.000Z''"
    by code_simp
  have ret: "fromEvent (\<lambda>s. 5 / 2) ''0xr1'' ''0xt1'' ''0xaa'' 3 ALLOCATION_RULE ''2500000''
               ''0xbb'' 42 1700000000
             = Inr \<lparr>recordId = ''0xr1'', transactionHash = ''0xt1'', internalTxHash = ''0xr1'',
                 ruleId = 3, source = ALLOCATION_RULE, recipient = ''0xaa'',
                 usdcAmount = ''2500000'', usdcAmountFormatted = 5 / 2,
                 kycStatus = UNKNOWN, amlStatus = UNKNOWN,
                 timestamp = 1700000000, timestampISO = ''2023-11-14T22:13:20.000Z'',
                 blockNumber = 42, executor = ''0xbb'',
                 circleGatewayTxId = None, arcTransparencyId = None,
                 reconciled = False, reconciledAt = 0, reconciledAtISO = None,
                 metadata = None, createdAt = None, updatedAt = None\<rparr>"
    by (simp add: fromEvent_def iso)
  from fromEvent_initial_status
         [of "\<lambda>s. 5 / 2" "''0xr1''" "''0xt1''" "''0xaa''" 3 ALLOCATION_RULE "''2500000''"
             "''0xbb''" 42 1700000000, THEN conjunct1, rule_format, OF ret]
  show ?thesis using ret by simp
qed

subsection \<open>C5: reconciliation\<close>

text \<open>
  C5. Reconciling a record should yield reconciled = true, reconciledAt equal to the
  clock time and reconciledAtISO the ISO-8601 rendering of that same timestamp. The
  TypeScript utility does so, and the pre-save hook derives reconciledAtISO from
  reconciledAt in the same way; the Mongoose method \<open>markReconciled\<close> does not. It reads
  the clock a second time for reconciledAtISO: with both readings at 1700000000123 ms it
  stores reconciledAt = 1700000000 and the date 2023-11-14T22:13:20.123Z, not the
  rendering 2023-11-14T22:13:20.000Z of reconciledAt, and with readings 1700000000999
  and 1700000001000 the two fields fall in different seconds.
\<close>

theorem markReconciled_doc_iso_divergence:
  "d_reconciled (markReconciled_doc 1700000000123 1700000000123 sample_doc) = Some True
   \<and> d_reconciledAt (markReconciled_doc 1700000000123 1700000000123 sample_doc)
     = Some 1700000000
   \<and> d_reconciledAtISO (markReconciled_doc 1700000000123 1700000000123 sample_doc)
     = Some (Date 1700000000123)
   \<and> d_reconciledAtISO (markReconciled_saved 1700000000123 1700000000123 sample_doc)
     = Some (Date 1700000000123)
   \<and> d_reconciledAtISO (markReconciled_doc 1700000000123 1700000000123 sample_doc)
     \<noteq> Some (new_Date (1700000000 * 1000))
   \<and> toISOString 1700000000123 = ''2023-11-14T22:13:20.123Z''
   \<and> timestampToISO 1700000000 = Inr ''2023-11-14T22:13:20.000Z''
   \<and> d_reconciledAt (markReconciled_doc 1700000000999 1700000001000 sample_doc)
     = Some 1700000000
   \<and> d_reconciledAtISO (markReconciled_doc 1700000000999 1700000001000 sample_doc)
     = Some (Date 1700000001000)
   \<and> markReconciled 1700000000123 sample_record
     = Inr (sample_record\<lparr>reconciled := True, reconciledAt := 1700000000,
              reconciledAtISO := Some ''2023-11-14T22:13:20.000Z''\<rparr>)
   \<and> d_reconciledAtISO
        (pre_save (sample_doc\<lparr>d_reconciled := Some True, d_reconciledAt := Some 1700000000\<rparr>))
     = Some (Date 1700000000000)"
proof -
  have ms: "toISOString 1700000000123 = ''2023-11-14T22:13:20.123Z''" by code_simp
  have sec: "timestampToISO 1700000000 = Inr ''2023-11-14T22:13:20.000Z''" by code_simp
  have doc: "d_reconciled (markReconciled_doc 1700000000123 1700000000123 sample_doc) = Some True
     \<and> d_reconciledAt (markReconciled_doc 1700000000123 1700000000123 sample_doc)
       = Some 1700000000
     \<and> d_reconciledAtISO (markReconciled_doc 1700000000123 1700000000123 sample_doc)
       = Some (Date 1700000000123)
     \<and> d_reconciledAtISO (markReconciled_doc 1700000000123 1700000000123 sample_doc)
       \<noteq> Some (new_Date (1700000000 * 1000))
     \<and> d_reconciledAt (markReconciled_doc 1700000000999 1700000001000 sample_doc)
       = Some 1700000000
     \<and> d_reconciledAtISO (markReconciled_doc 1700000000999 1700000001000 sample_doc)
       = Some (Date 1700000001000)"
    by (simp add: markReconciled_doc_def new_Date_def valid_time_value_def)
  have saved: "d_reconciledAtISO (markReconciled_saved 1700000000123 1700000000123 sample_doc)
       = Some (Date 1700000000123)"
    by (simp add: markReconciled_saved_def pre_save_keeps_reconciledAtISO markReconciled_doc_def)
  have util: "markReconciled 1700000000123 sample_record
       = Inr (sample_record\<lparr>reconciled := True, reconciledAt := 1700000000,
                reconciledAtISO := Some ''2023-11-14T22:13:20.000Z''\<rparr>)"
    using sec by (simp add: markReconciled_def Let_def)
  have hook: "d_reconciledAtISO
        (pre_save (sample_doc\<lparr>d_reconciled := Some True, d_reconciledAt := Some 1700000000\<rparr>))
       = Some (Date 1700000000000)"
    by (simp add: pre_save_def Let_def truthy_number_def new_Date_def valid_time_value_def
          sample_doc_def doc_from_event_def schema_defaults_def or_default_def)
  from ms sec doc saved util hook show ?thesis
    by (simp add: new_Date_def valid_time_value_def)
qed

subsection \<open>C6: reconciling twice\<close>

text \<open>
  C6. With the clock held fixed, reconciling an already reconciled record changes
  nothing and raises no error: whenever the first \<open>markReconciled\<close> returns a record,
  the second returns that same record, and for every clock reading that is a time value
  both return. The same holds of the Mongoose method (for any fixed pair of clock
  readings), with and without the pre-save hook.
\<close>

theorem markReconciled_idempotent:
  "(markReconciled clock r = Inr r1 \<longrightarrow> markReconciled clock r1 = Inr r1)
   \<and> (valid_time_value clock \<longrightarrow>
        (\<exists>r2. markReconciled clock r = Inr r2 \<and> markReconciled clock r2 = Inr r2))
   \<and> markReconciled_doc now1 now2 (markReconciled_doc now1 now2 d)
        = markReconciled_doc now1 now2 d
   \<and> markReconciled_saved now1 now2 (markReconciled_saved now1 now2 d)
        = markReconciled_saved now1 now2 d"
proof -
  have once: "markReconciled clock r = Inr r1 \<longrightarrow> markReconciled clock r1 = Inr r1"
  proof
    assume a: "markReconciled clock r = Inr r1"
    from markReconciled_Inr [OF a] show "markReconciled clock r1 = Inr r1"
      by (simp add: markReconciled_def Let_def)
  qed
  have both: "valid_time_value clock \<longrightarrow>
        (\<exists>r2. markReconciled clock r = Inr r2 \<and> markReconciled clock r2 = Inr r2)"
    by (simp add: markReconciled_valid_clock)
  have doc: "markReconciled_doc now1 now2 (markReconciled_doc now1 now2 d)
        = markReconciled_doc now1 now2 d"
    by (simp add: markReconciled_doc_def)
  have saved: "markReconciled_saved now1 now2 (markReconciled_saved now1 now2 d)
        = markReconciled_saved now1 now2 d"
    by (simp add: markReconciled_saved_def markReconciled_doc_def pre_save_def Let_def)
  from once both doc saved show ?thesis by blast
qed

theorem markReconciled_idempotent_witness:
  "valid_time_value 1700000000123
   \<and> (\<exists>r2. markReconciled 1700000000123 sample_record = Inr r2
          \<and> markReconciled 1700000000123 r2 = Inr r2 \<and> reconciled r2 = True
          \<and> reconciledAt r2 = 1700000000)"
proof -
  have v: "valid_time_value 1700000000123" by (simp add: valid_time_value_def)
  from markReconciled_idempotent
         [of 1700000000123 sample_record, THEN conjunct2, THEN conjunct1, rule_format, OF v]
  obtain r2 where a: "markReconciled 1700000000123 sample_record = Inr r2"
    and b: "markReconciled 1700000000123 r2 = Inr r2" by blast
  from markReconciled_Inr [OF a] have "reconciled r2 = True \<and> reconciledAt r2 = 1700000000"
    by simp
  with v a b show ?thesis by blast
qed

subsection \<open>C7: the frame of the two operations\<close>

definition creation_fields ::
  "ComplianceRecord \<Rightarrow>
     string \<times> string \<times> string \<times> int \<times> TransactionSource \<times> string \<times> string \<times> real \<times> int
       \<times> string \<times> int \<times> string \<times> Metadata option" where
  "creation_fields r =
     (recordId r, transactionHash r, internalTxHash r, ruleId r, source r, recipient r,
      usdcAmount r, usdcAmountFormatted r, timestamp r, timestampISO r, blockNumber r,
      executor r, metadata r)"

text \<open>
  C7. \<open>updateComplianceStatus\<close> and \<open>markReconciled\<close> leave every creation-time field
  of the record as it was: recordId, transactionHash, internalTxHash, ruleId, source,
  recipient, usdcAmount, usdcAmountFormatted, timestamp, timestampISO, blockNumber,
  executor and metadata.
\<close>

theorem status_and_reconcile_keep_creation_fields:
  "creation_fields (updateComplianceStatus r kyc aml g t) = creation_fields r
   \<and> (markReconciled clock r = Inr r' \<longrightarrow> creation_fields r' = creation_fields r)"
proof -
  have "creation_fields (updateComplianceStatus r kyc aml g t) = creation_fields r"
    by (simp add: creation_fields_def updateComplianceStatus_def)
  moreover have "markReconciled clock r = Inr r' \<longrightarrow> creation_fields r' = creation_fields r"
  proof
    assume a: "markReconciled clock r = Inr r'"
    from markReconciled_Inr [OF a] show "creation_fields r' = creation_fields r"
      by (simp add: creation_fields_def)
  qed
  ultimately show ?thesis by blast
qed

theorem status_and_reconcile_keep_creation_fields_witness:
  "\<exists>r'. markReconciled 1700000000123 sample_record = Inr r'
       \<and> creation_fields r' = creation_fields sample_record
       \<and> reconciled r' \<noteq> reconciled sample_record
       \<and> creation_fields sample_record =
           (''0xr1'', ''0xt1'', ''0xr1'', 3, ALLOCATION_RULE, ''0xaa'', ''2500000'', 5 / 2,
            1700000000, ''2023-11-14T22:13:20.000Z'', 42, ''0xbb'', None)"
proof -
  have v: "valid_time_value 1700000000123" by (simp add: valid_time_value_def)
  let ?r' = "sample_record\<lparr>reconciled := True, reconciledAt := 1700000000123 div 1000,
            reconciledAtISO := Some (toISOString (1700000000123 div 1000 * 1000))\<rparr>"
  have a: "markReconciled 1700000000123 sample_record = Inr ?r'"
    by (rule markReconciled_valid_clock [OF v])
  from status_and_reconcile_keep_creation_fields
         [of sample_record VERIFIED VERIFIED None None 1700000000123 ?r',
          THEN conjunct2, rule_format, OF a]
  have "creation_fields ?r' = creation_fields sample_record" .
  moreover have "reconciled ?r' \<noteq> reconciled sample_record"
    by (simp add: sample_record_def)
  moreover have "creation_fields sample_record =
           (''0xr1'', ''0xt1'', ''0xr1'', 3, ALLOCATION_RULE, ''0xaa'', ''2500000'', 5 / 2,
            1700000000, ''2023-11-14T22:13:20.000Z'', 42, ''0xbb'', None)"
    by (simp add: creation_fields_def sample_record_def)
  ultimately show ?thesis using a by blast
qed

subsection \<open>C10: the validator checks formats only\<close>

text \<open>
  C10. \<open>validate\<close> checks the format of the fields that are present and requires none:
  the empty partial record has no errors; for any record a field that is missing
  contributes no error; and every error of the result is the format message of one of
  the ten fields, and that field is present. So no message about an absent field, of
  any wording, is ever returned.
\<close>

theorem validate_requires_no_field:
  "validate empty_record = []
   \<and> (field_missing f r \<longrightarrow> field_error f \<notin> set (validate r))
   \<and> (e \<in> set (validate r) \<longrightarrow> (\<exists>g. e = field_error g \<and> \<not> field_missing g r))"
proof -
  have "validate empty_record = []"
    by (simp add: validate_def empty_record_def check_string_def check_number_def
          metadata_jurisdiction_def)
  moreover have "field_missing f r \<longrightarrow> field_error f \<notin> set (validate r)"
    unfolding validate_def
    by (cases f) (auto dest!: check_string_mem check_number_mem)
  moreover have "e \<in> set (validate r) \<longrightarrow> (\<exists>g. e = field_error g \<and> \<not> field_missing g r)"
  proof
    assume "e \<in> set (validate r)"
    then consider
        "e \<in> set (check_string (p_recordId r) validateHash (field_error F_recordId))"
      | "e \<in> set (check_string (p_transactionHash r) validateHash
                    (field_error F_transactionHash))"
      | "e \<in> set (check_string (p_internalTxHash r) validateHash
                    (field_error F_internalTxHash))"
      | "e \<in> set (check_string (p_recipient r) validateAddress (field_error F_recipient))"
      | "e \<in> set (check_string (p_executor r) validateAddress (field_error F_executor))"
      | "e \<in> set (check_string (p_usdcAmount r) validateAmount (field_error F_usdcAmount))"
      | "e \<in> set (check_number (p_ruleId r) (field_error F_ruleId))"
      | "e \<in> set (check_number (p_timestamp r) (field_error F_timestamp))"
      | "e \<in> set (check_number (p_blockNumber r) (field_error F_blockNumber))"
      | "e \<in> set (check_string (metadata_jurisdiction r) validateJurisdiction
                    (field_error F_jurisdiction))"
      unfolding validate_def by auto
    then show "\<exists>g. e = field_error g \<and> \<not> field_missing g r"
    proof cases
      case 1
      from check_string_mem [OF 1] have "e = field_error F_recordId
          \<and> \<not> field_missing F_recordId r" by simp
      then show ?thesis by blast
    next
      case 2
      from check_string_mem [OF 2] have "e = field_error F_transactionHash
          \<and> \<not> field_missing F_transactionHash r" by simp
      then show ?thesis by blast
    next
      case 3
      from check_string_mem [OF 3] have "e = field_error F_internalTxHash
          \<and> \<not> field_missing F_internalTxHash r" by simp
      then show ?thesis by blast
    next
      case 4
      from check_string_mem [OF 4] have "e = field_error F_recipient
          \<and> \<not> field_missing F_recipient r" by simp
      then show ?thesis by blast
    next
      case 5
      from check_string_mem [OF 5] have "e = field_error F_executor
          \<and> \<not> field_missing F_executor r" by simp
      then show ?thesis by blast
    next
      case 6
      from check_string_mem [OF 6] have "e = field_error F_usdcAmount
          \<and> \<not> field_missing F_usdcAmount r" by simp
      then show ?thesis by blast
    next
      case 7
      from check_number_mem [OF 7] have "e = field_error F_ruleId
          \<and> \<not> field_missing F_ruleId r" by simp
      then show ?thesis by blast
    next
      case 8
      from check_number_mem [OF 8] have "e = field_error F_timestamp
          \<and> \<not> field_missing F_timestamp r" by simp
      then show ?thesis by blast
    next
      case 9
      from check_number_mem [OF 9] have "e = field_error F_blockNumber
          \<and> \<not> field_missing F_blockNumber r" by simp
      then show ?thesis by blast
    next
      case 10
      from check_string_mem [OF 10] have "e = field_error F_jurisdiction
          \<and> \<not> field_missing F_jurisdiction r" by simp
      then show ?thesis by blast
    qed
  qed
  ultimately show ?thesis by blast
qed

definition sample_partial :: PartialComplianceRecord where
  "sample_partial = empty_record\<lparr>p_recipient := Some ''0x12'', p_ruleId := Some (- 1)\<rparr>"

theorem validate_requires_no_field_witness:
  "field_missing F_recordId sample_partial
   \<and> field_error F_recordId \<notin> set (validate sample_partial)
   \<and> validate sample_partial =
       [''recipient must be a valid Ethereum address'', ''ruleId must be non-negative'']
   \<and> ''ruleId must be non-negative'' \<in> set (validate sample_partial)
   \<and> (\<exists>g. ''ruleId must be non-negative'' = field_error g
          \<and> \<not> field_missing g sample_partial)"
proof -
  have m: "field_missing F_recordId sample_partial"
    by (simp add: sample_partial_def empty_record_def)
  have v: "validate sample_partial =
       [''recipient must be a valid Ethereum address'', ''ruleId must be non-negative'']"
    by (simp add: validate_def sample_partial_def empty_record_def check_string_def
          check_number_def metadata_jurisdiction_def validateAddress_def)
  have i: "''ruleId must be non-negative'' \<in> set (validate sample_partial)"
    by (simp add: v)
  note t = validate_requires_no_field
             [of F_recordId sample_partial "''ruleId must be non-negative''"]
  from t m have a: "field_error F_recordId \<notin> set (validate sample_partial)" by blast
  from t i have b: "\<exists>g. ''ruleId must be non-negative'' = field_error g
          \<and> \<not> field_missing g sample_partial" by blast
  from m a v i b show ?thesis by blast
qed

section \<open>Properties of the payroll automation service\<close>

subsection \<open>Helper facts\<close>

lemma executeScheduledDistribution_attempts:
  "filter is_attempt (snd (executeScheduledDistribution cfg env scheduleId trace))
     = filter is_attempt trace @ [GetScheduledDistribution scheduleId]"
  by (simp add: executeScheduledDistribution_def Let_def is_attempt_def
      split: sum.splits)

lemma execute_each_outcomes:
  "fst (execute_each cfg env ids rs trace) = rs @ executed (outcomes cfg env ids trace)"
proof (induction ids arbitrary: rs trace)
  case Nil
  then show ?case by simp
next
  case (Cons i ids)
  obtain out trace' where e: "executeScheduledDistribution cfg env i trace = (out, trace')"
    by (cases "executeScheduledDistribution cfg env i trace")
  show ?case
  proof (cases out)
    case (Inl err)
    with e Cons.IH [of rs trace'] show ?thesis by simp
  next
    case (Inr v)
    show ?thesis
    proof (cases v)
      case None
      with e Inr Cons.IH [of rs trace'] show ?thesis by simp
    next
      case (Some r)
      with e Inr Cons.IH [of "rs @ [r]" trace'] show ?thesis by simp
    qed
  qed
qed

lemma execute_each_attempts:
  "filter is_attempt (snd (execute_each cfg env ids rs trace))
     = filter is_attempt trace @ map GetScheduledDistribution ids"
proof (induction ids arbitrary: rs trace)
  case Nil
  then show ?case by simp
next
  case (Cons i ids)
  obtain out trace' where e: "executeScheduledDistribution cfg env i trace = (out, trace')"
    by (cases "executeScheduledDistribution cfg env i trace")
  have a: "filter is_attempt trace' = filter is_attempt trace @ [GetScheduledDistribution i]"
    using executeScheduledDistribution_attempts [of cfg env i trace] e by simp
  have "\<exists>rs'. execute_each cfg env (i # ids) rs trace = execute_each cfg env ids rs' trace'"
    using e by (cases out; cases "projr out") auto
  then obtain rs' where
    "execute_each cfg env (i # ids) rs trace = execute_each cfg env ids rs' trace'" ..
  with Cons.IH [of rs' trace'] a show ?case by simp
qed

lemma length_outcomes: "length (outcomes cfg env ids trace) = length ids"
  by (induction ids arbitrary: trace) simp_all

lemma executed_all_failed: "\<forall>out \<in> set outs. isl out \<Longrightarrow> executed outs = []"
  by (induction outs rule: executed.induct) auto

definition sample_environment :: environment where
  "sample_environment =
     \<lparr>contract_getDueScheduledDistributions = (\<lambda>trace. Inr [1, 2, 3]),
      contract_getScheduledDistribution =
        (\<lambda>trace i. if i = 2 then Inl (Error ''call revert exception'')
                   else Inr \<lparr>s_recipient = (if i = 3 then ''0xcc'' else ''0xaa''),
                            s_amount = 1000000 * i, s_interval = 2592000,
                            s_nextDistribution = 1700000000, s_active = True,
                            s_totalDistributed = 0\<rparr>),
      gateway_performComplianceCheck =
        (\<lambda>trace recip amount src.
           Inr \<lparr>c_transactionId = ''cg_tx_1'',
                c_kycStatus = (if recip = ''0xcc'' then ''PENDING'' else ''VERIFIED''),
                c_amlStatus = ''EXEMPT'', c_riskScore = 3\<rparr>),
      contract_executeScheduledDistributions = (\<lambda>trace ids. Inr \<lparr>tx_hash = ''0xh1''\<rparr>),
      tx_wait = (\<lambda>trace tx. Inr \<lparr>rc_blockNumber = 7, rc_gasUsed = 21000\<rparr>),
      formatUnits = (\<lambda>n. toString (n div 1000000) @ ''.0'')\<rparr>"

definition failing_environment :: environment where
  "failing_environment =
     sample_environment
       \<lparr>contract_getScheduledDistribution := (\<lambda>trace i. Inl (Error ''network error''))\<rparr>"

definition strict_config :: config where
  "strict_config = \<lparr>requireKYC = True, requireAML = True\<rparr>"

subsection \<open>C8: skipping a schedule that fails the compliance check\<close>

text \<open>
  C8. When the contract returns the schedule and the compliance provider answers, and
  either requireKYC is set and the returned kycStatus is neither VERIFIED nor EXEMPT, or
  requireAML is set and the returned amlStatus is neither VERIFIED nor EXEMPT, then
  \<open>executeScheduledDistribution\<close> resolves to \<open>null\<close> and the only calls it has made
  are the read of the schedule and the compliance check: no
  \<open>executeScheduledDistributions\<close> transaction is submitted.
\<close>

theorem executeScheduledDistribution_skips_unverified:
  assumes "contract_getScheduledDistribution env trace scheduleId = Inr schedule"
    and "gateway_performComplianceCheck env (trace @ [GetScheduledDistribution scheduleId])
           (s_recipient schedule) (formatUnits env (s_amount schedule))
           ''SCHEDULED_DISTRIBUTION'' = Inr complianceCheck"
    and "(requireKYC cfg \<and> c_kycStatus complianceCheck \<noteq> ''VERIFIED''
            \<and> c_kycStatus complianceCheck \<noteq> ''EXEMPT'')
         \<or> (requireAML cfg \<and> c_amlStatus complianceCheck \<noteq> ''VERIFIED''
            \<and> c_amlStatus complianceCheck \<noteq> ''EXEMPT'')"
  shows "fst (executeScheduledDistribution cfg env scheduleId trace) = Inr None
    \<and> snd (executeScheduledDistribution cfg env scheduleId trace)
        = trace @ [GetScheduledDistribution scheduleId,
                   PerformComplianceCheck (s_recipient schedule)
                     (formatUnits env (s_amount schedule)) ''SCHEDULED_DISTRIBUTION'']
    \<and> filter is_submission (snd (executeScheduledDistribution cfg env scheduleId trace))
        = filter is_submission trace"
proof -
  have run: "executeScheduledDistribution cfg env scheduleId trace
      = (Inr None, trace @ [GetScheduledDistribution scheduleId,
                   PerformComplianceCheck (s_recipient schedule)
                     (formatUnits env (s_amount schedule)) ''SCHEDULED_DISTRIBUTION''])"
    using assms by (auto simp: executeScheduledDistribution_def Let_def)
  then show ?thesis by (simp add: is_submission_def)
qed

theorem executeScheduledDistribution_skips_unverified_witness:
  "fst (executeScheduledDistribution strict_config sample_environment 3 []) = Inr None
   \<and> snd (executeScheduledDistribution strict_config sample_environment 3 [])
       = [GetScheduledDistribution 3,
          PerformComplianceCheck ''0xcc'' ''3.0'' ''SCHEDULED_DISTRIBUTION'']
   \<and> filter is_submission (snd (executeScheduledDistribution strict_config sample_environment 3 []))
       = []"
proof -
  let ?schedule = "\<lparr>s_recipient = ''0xcc'', s_amount = 3000000, s_interval = 2592000,
                     s_nextDistribution = 1700000000, s_active = True,
                     s_totalDistributed = 0\<rparr>"
  let ?check = "\<lparr>c_transactionId = ''cg_tx_1'', c_kycStatus = ''PENDING'',
                  c_amlStatus = ''EXEMPT'', c_riskScore = 3\<rparr>"
  have fmt: "formatUnits sample_environment 3000000 = ''3.0''"
    by (simp add: sample_environment_def)
  have a: "contract_getScheduledDistribution sample_environment [] 3 = Inr ?schedule"
    by (simp add: sample_environment_def)
  have b: "gateway_performComplianceCheck sample_environment ([] @ [GetScheduledDistribution 3])
             (s_recipient ?schedule) (formatUnits sample_environment (s_amount ?schedule))
             ''SCHEDULED_DISTRIBUTION'' = Inr ?check"
    by (simp add: sample_environment_def)
  have c: "(requireKYC strict_config \<and> c_kycStatus ?check \<noteq> ''VERIFIED''
              \<and> c_kycStatus ?check \<noteq> ''EXEMPT'')
           \<or> (requireAML strict_config \<and> c_amlStatus ?check \<noteq> ''VERIFIED''
              \<and> c_amlStatus ?check \<noteq> ''EXEMPT'')"
    by (simp add: strict_config_def)
  from executeScheduledDistribution_skips_unverified [OF a b c]
  show ?thesis using fmt by (simp add: is_submission_def)
qed

subsection \<open>C9: one failing schedule does not stop the batch\<close>

text \<open>
  C9. When the contract returns the list of due schedule ids,
  \<open>checkScheduledDistributions\<close> attempts every id of the list, in order, whatever the
  earlier ones did: the reads of a schedule it adds to the trace are one per id, and
  each id has its outcome. The call returns no error, and its count is the number of
  ids that executed (settled to a result object). When every id fails, the count is 0.
\<close>

theorem checkScheduledDistributions_soft_skip:
  assumes "contract_getDueScheduledDistributions env trace = Inr dueSchedules"
  shows "length (outcomes cfg env dueSchedules (trace @ [GetDueScheduledDistributions]))
           = length dueSchedules
    \<and> filter is_attempt (snd (checkScheduledDistributions cfg env trace))
        = filter is_attempt trace @ map GetScheduledDistribution dueSchedules
    \<and> count (fst (checkScheduledDistributions cfg env trace))
        = length (executed (outcomes cfg env dueSchedules
                              (trace @ [GetDueScheduledDistributions])))
    \<and> error (fst (checkScheduledDistributions cfg env trace)) = None
    \<and> ((\<forall>out \<in> set (outcomes cfg env dueSchedules (trace @ [GetDueScheduledDistributions])).
           isl out)
        \<longrightarrow> count (fst (checkScheduledDistributions cfg env trace)) = 0)"
proof (cases "dueSchedules = []")
  case True
  with assms show ?thesis
    by (simp add: checkScheduledDistributions_def Let_def is_attempt_def)
next
  case False
  let ?t1 = "trace @ [GetDueScheduledDistributions]"
  obtain rs trace2 where e: "execute_each cfg env dueSchedules [] ?t1 = (rs, trace2)"
    by (cases "execute_each cfg env dueSchedules [] ?t1")
  have run: "checkScheduledDistributions cfg env trace
      = (\<lparr>count = length rs, results = Some rs, error = None\<rparr>, trace2)"
    using assms False e by (simp add: checkScheduledDistributions_def Let_def)
  have rs: "rs = executed (outcomes cfg env dueSchedules ?t1)"
    using execute_each_outcomes [of cfg env dueSchedules "[]" ?t1] e by simp
  have tr: "filter is_attempt trace2
      = filter is_attempt trace @ map GetScheduledDistribution dueSchedules"
    using execute_each_attempts [of cfg env dueSchedules "[]" ?t1] e
    by (simp add: is_attempt_def)
  have zero: "(\<forall>out \<in> set (outcomes cfg env dueSchedules ?t1). isl out) \<longrightarrow> length rs = 0"
    using rs executed_all_failed by auto
  from run rs tr zero show ?thesis by (simp add: length_outcomes)
qed

theorem checkScheduledDistributions_soft_skip_witness:
  "contract_getDueScheduledDistributions sample_environment [] = Inr [1, 2, 3]
   \<and> map isl (outcomes strict_config sample_environment [1, 2, 3] [GetDueScheduledDistributions])
       = [False, True, False]
   \<and> filter is_attempt (snd (checkScheduledDistributions strict_config sample_environment []))
       = [GetScheduledDistribution 1, GetScheduledDistribution 2, GetScheduledDistribution 3]
   \<and> count (fst (checkScheduledDistributions strict_config sample_environment [])) = 1
   \<and> map isl (outcomes strict_config failing_environment [1, 2, 3]
                   [GetDueScheduledDistributions]) = [True, True, True]
   \<and> count (fst (checkScheduledDistributions strict_config failing_environment [])) = 0"
proof -
  have due: "contract_getDueScheduledDistributions sample_environment [] = Inr [1, 2, 3]"
    by (simp add: sample_environment_def)
  have due': "contract_getDueScheduledDistributions failing_environment [] = Inr [1, 2, 3]"
    by (simp add: failing_environment_def sample_environment_def)
  have outs: "outcomes strict_config sample_environment [1, 2, 3] [GetDueScheduledDistributions]
      = [Inr (Some \<lparr>res_scheduleId = ''1'', res_recipient = ''0xaa'', res_amount = ''1.0'',
                     res_txHash = ''0xh1'', res_blockNumber = 7,
                     res_circleGatewayTxId = ''cg_tx_1'', res_gasUsed = ''21000''\<rparr>),
         Inl (Error ''call revert exception''), Inr None]"
    by (simp add: executeScheduledDistribution_def sample_environment_def strict_config_def
          Let_def)
  have outs': "outcomes strict_config failing_environment [1, 2, 3] [GetDueScheduledDistributions]
      = [Inl (Error ''network error''), Inl (Error ''network error''),
         Inl (Error ''network error'')]"
    by (simp add: executeScheduledDistribution_def failing_environment_def
          sample_environment_def Let_def)
  have app: "[] @ [GetDueScheduledDistributions] = [GetDueScheduledDistributions]" by simp
  note ok = checkScheduledDistributions_soft_skip
              [OF due, of strict_config, unfolded app, unfolded outs]
  note failed = checkScheduledDistributions_soft_skip
                  [OF due', of strict_config, unfolded app, unfolded outs']
  have o1: "map isl (outcomes strict_config sample_environment [1, 2, 3]
                      [GetDueScheduledDistributions]) = [False, True, False]"
    unfolding outs by simp
  have o2: "map isl (outcomes strict_config failing_environment [1, 2, 3]
                      [GetDueScheduledDistributions]) = [True, True, True]"
    unfolding outs' by simp
  from ok have a1: "filter is_attempt
        (snd (checkScheduledDistributions strict_config sample_environment []))
       = [GetScheduledDistribution 1, GetScheduledDistribution 2, GetScheduledDistribution 3]"
    and a2: "count (fst (checkScheduledDistributions strict_config sample_environment [])) = 1"
    by simp_all
  from failed
  have f1: "count (fst (checkScheduledDistributions strict_config failing_environment [])) = 0"
    by simp
  from due o1 a1 a2 o2 f1 show ?thesis by blast
qed

section \<open>Properties of the treasury model\<close>

subsection \<open>The ledger invariant\<close>

text \<open>
  In every state a run of calls can reach, no transaction is stored at or above the
  next id, and a transaction id has exactly one MULTISIG record when it is executed and
  none otherwise.
\<close>

definition ledger_ok :: "treasury \<Rightarrow> bool" where
  "ledger_ok s =
     ((\<forall>txId. t_nextTxId s \<le> txId \<longrightarrow> t_transactions s txId = None)
      \<and> (\<forall>txId. executions s txId = (if is_executed s txId then 1 else 0)))"

lemma execute_allocation_frame:
  "t_transactions (snd (execute_allocation caller now rid s)) = t_transactions s"
  "t_nextTxId (snd (execute_allocation caller now rid s)) = t_nextTxId s"
  "t_signers (snd (execute_allocation caller now rid s)) = t_signers s"
  "t_threshold (snd (execute_allocation caller now rid s)) = t_threshold s"
  "executions (snd (execute_allocation caller now rid s)) txId = executions s txId"
  by (simp_all add: execute_allocation_def recordMovement_def executions_def Let_def
      split: option.splits)

lemma executeAllocations_frame:
  "t_transactions (snd (executeAllocations caller now rids s)) = t_transactions s
   \<and> t_nextTxId (snd (executeAllocations caller now rids s)) = t_nextTxId s
   \<and> t_signers (snd (executeAllocations caller now rids s)) = t_signers s
   \<and> t_threshold (snd (executeAllocations caller now rids s)) = t_threshold s
   \<and> executions (snd (executeAllocations caller now rids s)) txId = executions s txId"
proof (induction rids arbitrary: s)
  case Nil then show ?case by simp
next
  case (Cons r rids)
  show ?case
    using Cons.IH [of "snd (execute_allocation caller now r s)"]
    by (simp add: split_def Let_def execute_allocation_frame)
qed

lemma perform_effect:
  assumes "perform caller txId tx s = Inr s'"
  shows "pt_amount tx \<le> t_balance s"
    and "t_balance s' = t_balance s - pt_amount tx"
    and "t_transactions s' = (t_transactions s)(txId \<mapsto> tx\<lparr>pt_executed := True\<rparr>)"
    and "t_nextTxId s' = t_nextTxId s"
    and "t_signers s' = t_signers s"
    and "t_threshold s' = t_threshold s"
    and "t_rules s' = t_rules s"
    and "t_records s' = t_records s @
          [\<lparr>mr_sequence = length (t_records s), mr_internalTxRef = txId,
            mr_ruleId = 0, mr_source = MULTISIG_TRANSACTION, mr_recipient = pt_recipient tx,
            mr_amount = pt_amount tx,
            mr_kycStatus = UNKNOWN, mr_amlStatus = UNKNOWN, mr_executor = caller\<rparr>]"
  using assms by (auto simp: perform_def recordMovement_def split: if_splits)

lemma perform_executions:
  assumes "perform caller txId tx s = Inr s'"
  shows "executions s' i = (if i = txId then Suc (executions s i) else executions s i)"
  using perform_effect(8) [OF assms] by (simp add: executions_def)

lemma pending_known:
  assumes ok: "ledger_ok s" and pend: "is_pending s txId"
  shows "txId < t_nextTxId s"
proof -
  from pend obtain tx0 where tx0: "t_transactions s txId = Some tx0"
    by (auto simp: is_pending_def split: option.splits)
  have "\<not> t_nextTxId s \<le> txId"
  proof
    assume "t_nextTxId s \<le> txId"
    with ok have "t_transactions s txId = None" by (simp add: ledger_ok_def)
    with tx0 show False by simp
  qed
  then show ?thesis by simp
qed

lemma perform_ledger_ok:
  assumes ok: "ledger_ok s" and p: "perform caller txId tx s = Inr s'"
    and pend: "is_pending s txId"
  shows "ledger_ok s'"
proof -
  have lt: "txId < t_nextTxId s" using pending_known [OF ok pend] .
  from pend ok have e0: "executions s txId = 0"
    by (auto simp: ledger_ok_def is_pending_def is_executed_def split: option.splits)
  show ?thesis
    using ok lt e0 perform_effect(3,4) [OF p] perform_executions [OF p]
    by (auto simp: ledger_ok_def is_executed_def)
qed


lemma confirm_ledger_ok:
  assumes ok: "ledger_ok s" and c: "confirm caller txId s = Inr s'"
  shows "ledger_ok s'"
proof -
  from c obtain tx where tx: "t_transactions s txId = Some tx" and ne: "\<not> pt_executed tx"
    by (auto simp: confirm_def split: if_splits option.splits)
  let ?tx' = "tx\<lparr>pt_confirmations := pt_confirmations tx @ [caller]\<rparr>"
  from tx ne have pend: "is_pending s txId" by (simp add: is_pending_def)
  show ?thesis
  proof (cases "t_threshold s \<le> length (pt_confirmations ?tx')")
    case True
    with c tx have p: "perform caller txId ?tx' s = Inr s'"
      by (auto simp: confirm_def Let_def split: if_splits)
    from perform_ledger_ok [OF ok p pend] show ?thesis .
  next
    case False
    with c tx have "s' = s\<lparr>t_transactions := (t_transactions s)(txId \<mapsto> ?tx')\<rparr>"
      by (auto simp: confirm_def Let_def split: if_splits)
    with ok tx ne pending_known [OF ok pend] show ?thesis
      by (auto simp: ledger_ok_def is_executed_def executions_def)
  qed
qed

lemma execute_ledger_ok:
  assumes ok: "ledger_ok s" and c: "execute caller txId s = Inr s'"
  shows "ledger_ok s'"
proof -
  from c obtain tx where tx: "t_transactions s txId = Some tx" and ne: "\<not> pt_executed tx"
    and p: "perform caller txId tx s = Inr s'"
    by (auto simp: execute_def split: if_splits option.splits)
  from tx ne have pend: "is_pending s txId" by (simp add: is_pending_def)
  from perform_ledger_ok [OF ok p pend] show ?thesis .
qed

lemma revoke_ledger_ok:
  assumes ok: "ledger_ok s" and c: "revoke caller txId s = Inr s'"
  shows "ledger_ok s'"
proof -
  from c obtain tx where tx: "t_transactions s txId = Some tx" and ne: "\<not> pt_executed tx"
    and s': "s' = s\<lparr>t_transactions := (t_transactions s)(txId \<mapsto>
                         tx\<lparr>pt_confirmations := removeAll caller (pt_confirmations tx)\<rparr>)\<rparr>"
    by (auto simp: revoke_def split: if_splits option.splits)
  from tx ne have pend: "is_pending s txId" by (simp add: is_pending_def)
  from ok tx ne s' pending_known [OF ok pend] show ?thesis
    by (auto simp: ledger_ok_def is_executed_def executions_def)
qed

lemma propose_ledger_ok:
  assumes ok: "ledger_ok s" and c: "propose caller recip amount payload s = Inr (i, s')"
  shows "ledger_ok s'"
proof -
  from ok have none: "t_transactions s (t_nextTxId s) = None" by (simp add: ledger_ok_def)
  from c have s': "s' = s\<lparr>t_transactions := (t_transactions s)(t_nextTxId s \<mapsto>
                       \<lparr>pt_recipient = recip, pt_amount = amount, pt_payload = payload,
                        pt_confirmations = [], pt_executed = False\<rparr>),
                   t_nextTxId := Suc (t_nextTxId s)\<rparr>"
    by (auto simp: propose_def split: if_splits)
  have ex: "\<And>k. executions s' k = executions s k" by (simp add: s' executions_def)
  have ie: "\<And>k. is_executed s' k = is_executed s k"
    using none by (simp add: s' is_executed_def)
  have nx: "\<And>k. t_nextTxId s' \<le> k \<Longrightarrow> t_transactions s' k = None"
    using ok by (simp add: s' ledger_ok_def)
  from ok ex ie nx show ?thesis by (simp add: ledger_ok_def)
qed

lemma drop_confirmation_executed [simp]:
  "pt_executed (drop_confirmation signer tx) = pt_executed tx"
  by (simp add: drop_confirmation_def)

lemma removeSigner_ledger_ok:
  assumes ok: "ledger_ok s" and c: "removeSigner caller signer s = Inr s'"
  shows "ledger_ok s'"
proof -
  from c have s': "s' = s\<lparr>t_signers := removeAll signer (t_signers s),
                   t_transactions :=
                     (\<lambda>txId. map_option (drop_confirmation signer) (t_transactions s txId))\<rparr>"
    by (auto simp: removeSigner_def split: if_splits)
  have ex: "\<And>k. executions s' k = executions s k" by (simp add: s' executions_def)
  have ie: "\<And>k. is_executed s' k = is_executed s k"
    by (simp add: s' is_executed_def split: option.splits)
  have nx: "\<And>k. t_nextTxId s' \<le> k \<Longrightarrow> t_transactions s' k = None"
    using ok by (simp add: s' ledger_ok_def)
  from ok ex ie nx show ?thesis by (simp add: ledger_ok_def)
qed

lemma ledger_ok_frame:
  assumes "t_transactions s' = t_transactions s" and "t_nextTxId s' = t_nextTxId s"
    and "\<And>i. executions s' i = executions s i"
  shows "ledger_ok s' = ledger_ok s"
  using assms by (simp add: ledger_ok_def is_executed_def)

lemma apply_operation_ledger_ok: "ledger_ok s \<Longrightarrow> ledger_ok (apply_operation op s)"
proof (cases op)
  case (Propose c r a p)
  then show "ledger_ok s \<Longrightarrow> ?thesis"
    by (cases "propose c r a p s") (auto simp: or_unchanged_def dest: propose_ledger_ok)
next
  case (Confirm c i)
  then show "ledger_ok s \<Longrightarrow> ?thesis"
    by (cases "confirm c i s") (auto simp: or_unchanged_def dest: confirm_ledger_ok)
next
  case (Revoke c i)
  then show "ledger_ok s \<Longrightarrow> ?thesis"
    by (cases "revoke c i s") (auto simp: or_unchanged_def dest: revoke_ledger_ok)
next
  case (Execute c i)
  then show "ledger_ok s \<Longrightarrow> ?thesis"
    by (cases "execute c i s") (auto simp: or_unchanged_def dest: execute_ledger_ok)
next
  case (AddSigner c g)
  have "ledger_ok (or_unchanged s (addSigner c g s)) = ledger_ok s"
    by (rule ledger_ok_frame) (simp_all add: or_unchanged_def addSigner_def executions_def)
  with AddSigner show "ledger_ok s \<Longrightarrow> ?thesis" by simp
next
  case (RemoveSigner c g)
  then show "ledger_ok s \<Longrightarrow> ?thesis"
    by (cases "removeSigner c g s") (auto simp: or_unchanged_def dest: removeSigner_ledger_ok)
next
  case (SetThreshold c n)
  have "ledger_ok (or_unchanged s (setThreshold c n s)) = ledger_ok s"
    by (rule ledger_ok_frame) (simp_all add: or_unchanged_def setThreshold_def executions_def)
  with SetThreshold show "ledger_ok s \<Longrightarrow> ?thesis" by simp
next
  case (CreateAllocationRule r k v b p cd)
  have "ledger_ok (or_unchanged s (map_sum id snd (createAllocationRule r k v b p cd s)))
          = ledger_ok s"
    by (rule ledger_ok_frame)
       (simp_all add: or_unchanged_def createAllocationRule_def executions_def)
  with CreateAllocationRule show "ledger_ok s \<Longrightarrow> ?thesis" by simp
next
  case (UpdateAllocationRule r a)
  have "ledger_ok (or_unchanged s (updateAllocationRule r a s)) = ledger_ok s"
    by (rule ledger_ok_frame)
       (simp_all add: or_unchanged_def updateAllocationRule_def executions_def
          split: option.splits)
  with UpdateAllocationRule show "ledger_ok s \<Longrightarrow> ?thesis" by simp
next
  case (ExecuteAllocations c n ids)
  have "ledger_ok (snd (executeAllocations c n ids s)) = ledger_ok s"
    by (rule ledger_ok_frame) (simp_all add: executeAllocations_frame)
  with ExecuteAllocations show "ledger_ok s \<Longrightarrow> ?thesis" by simp
next
  case (ExecuteAllEligibleAllocations c n)
  have "ledger_ok (snd (executeAllEligibleAllocations c n s)) = ledger_ok s"
    by (rule ledger_ok_frame)
       (simp_all add: executeAllEligibleAllocations_def executeAllocations_frame)
  with ExecuteAllEligibleAllocations show "ledger_ok s \<Longrightarrow> ?thesis" by simp
qed

lemma run_ledger_ok: "ledger_ok s \<Longrightarrow> ledger_ok (run ops s)"
  by (induction ops arbitrary: s) (simp_all add: apply_operation_ledger_ok)

lemma new_treasury_ledger_ok: "ledger_ok (new_treasury auth sgs thr bal)"
  by (simp add: ledger_ok_def new_treasury_def executions_def is_executed_def)

lemma is_executed_executions: "ledger_ok s \<Longrightarrow> is_executed s txId = (executions s txId = 1)"
  by (simp add: ledger_ok_def)

lemma executions_mono_step: "executions s txId \<le> executions (apply_operation op s) txId"
proof (cases op)
  case (Propose c r a p)
  then show ?thesis
    by (auto simp: or_unchanged_def propose_def executions_def)
next
  case (Confirm c i)
  then show ?thesis
    by (cases "confirm c i s")
       (auto simp: or_unchanged_def confirm_def Let_def executions_def
          dest!: perform_effect(8) split: if_splits option.splits)
next
  case (Revoke c i)
  then show ?thesis
    by (auto simp: or_unchanged_def revoke_def executions_def split: option.splits)
next
  case (Execute c i)
  then show ?thesis
    by (cases "execute c i s")
       (auto simp: or_unchanged_def execute_def executions_def
          dest!: perform_effect(8) split: if_splits option.splits)
next
  case (AddSigner c g)
  then show ?thesis by (auto simp: or_unchanged_def addSigner_def executions_def)
next
  case (RemoveSigner c g)
  then show ?thesis by (auto simp: or_unchanged_def removeSigner_def executions_def)
next
  case (SetThreshold c n)
  then show ?thesis by (auto simp: or_unchanged_def setThreshold_def executions_def)
next
  case (CreateAllocationRule r k v b p cd)
  then show ?thesis by (auto simp: or_unchanged_def createAllocationRule_def executions_def)
next
  case (UpdateAllocationRule r a)
  then show ?thesis
    by (auto simp: or_unchanged_def updateAllocationRule_def executions_def split: option.splits)
next
  case (ExecuteAllocations c n ids)
  then show ?thesis by (simp add: executeAllocations_frame)
next
  case (ExecuteAllEligibleAllocations c n)
  then show ?thesis by (simp add: executeAllEligibleAllocations_def executeAllocations_frame)
qed

lemma executions_mono_run: "executions s txId \<le> executions (run ops s) txId"
proof (induction ops arbitrary: s)
  case Nil then show ?case by simp
next
  case (Cons op ops)
  have "executions s txId \<le> executions (apply_operation op s) txId"
    by (rule executions_mono_step)
  also have "\<dots> \<le> executions (run ops (apply_operation op s)) txId" by (rule Cons.IH)
  finally show ?case by simp
qed

lemma executed_stays:
  assumes ok: "ledger_ok s" and ex: "is_executed s txId"
  shows "is_executed (run ops s) txId \<and> executions (run ops s) txId = 1"
proof -
  have ok': "ledger_ok (run ops s)" using ok by (rule run_ledger_ok)
  from ok ex have "executions s txId = 1" by (simp add: ledger_ok_def)
  with executions_mono_run [of s txId ops] have ge: "1 \<le> executions (run ops s) txId" by simp
  from ok' have "executions (run ops s) txId = (if is_executed (run ops s) txId then 1 else 0)"
    by (simp add: ledger_ok_def)
  with ge show ?thesis by (auto split: if_splits)
qed

lemma executed_rejects:
  assumes "is_executed s txId"
  shows "execute c txId s = Inl StateError"
    and "confirm c txId s = Inl StateError"
  using assms
  by (auto simp: is_executed_def execute_def confirm_def split: option.splits)

subsection \<open>The budget invariant\<close>








subsection \<open>C1: execution at the threshold\<close>

definition scenario :: treasury where
  "scenario = run [Propose 1 7 200 [], Confirm 1 0] (new_treasury 100 [1, 2, 3] 2 1000)"

text \<open>
  C1. In any state a run of calls reaches from a new treasury, a successful \<open>confirm\<close>
  of a pending transaction adds the caller's confirmation and executes the transaction
  inside that same call exactly when the confirmations reach the threshold: the balance
  is debited, one MULTISIG record is written and the transaction is marked executed;
  below the threshold nothing moves. Once executed, the transaction stays executed with
  exactly one MULTISIG record after any further calls, and every later \<open>confirm\<close> or
  \<open>execute\<close> on its id, by any caller, fails with StateError.
\<close>

theorem confirm_executes_once_at_threshold:
  assumes reach: "s = run ops0 (new_treasury auth sgs thr bal)"
    and tx: "t_transactions s txId = Some tx"
    and pend: "\<not> pt_executed tx"
    and c: "confirm caller txId s = Inr s'"
  shows "t_transactions s' txId =
           Some (tx\<lparr>pt_confirmations := pt_confirmations tx @ [caller],
                    pt_executed := (t_threshold s \<le> Suc (length (pt_confirmations tx)))\<rparr>)
    \<and> is_executed s' txId = (t_threshold s \<le> confirmation_count s' txId)
    \<and> (if is_executed s' txId
        then pt_amount tx \<le> t_balance s \<and> t_balance s' = t_balance s - pt_amount tx
           \<and> t_records s' = t_records s @
                [\<lparr>mr_sequence = length (t_records s), mr_internalTxRef = txId, mr_ruleId = 0,
                  mr_source = MULTISIG_TRANSACTION, mr_recipient = pt_recipient tx,
                  mr_amount = pt_amount tx, mr_kycStatus = UNKNOWN, mr_amlStatus = UNKNOWN,
                  mr_executor = caller\<rparr>]
           \<and> executions s' txId = 1
        else t_balance s' = t_balance s \<and> t_records s' = t_records s
           \<and> executions s' txId = 0)
    \<and> (is_executed s' txId \<longrightarrow>
          is_executed (run ops s') txId \<and> executions (run ops s') txId = 1
          \<and> execute c1 txId (run ops s') = Inl StateError
          \<and> confirm c2 txId (run ops s') = Inl StateError)"
proof -
  have ok: "ledger_ok s"
    unfolding reach by (intro run_ledger_ok new_treasury_ledger_ok)
  let ?tx' = "tx\<lparr>pt_confirmations := pt_confirmations tx @ [caller]\<rparr>"
  from tx pend have isp: "is_pending s txId" by (simp add: is_pending_def)
  from ok tx pend have e0: "executions s txId = 0"
    by (simp add: ledger_ok_def is_executed_def)
  have ok': "ledger_ok s'" using ok c by (rule confirm_ledger_ok)
  have later: "is_executed s' txId \<longrightarrow>
          is_executed (run ops s') txId \<and> executions (run ops s') txId = 1
          \<and> execute c1 txId (run ops s') = Inl StateError
          \<and> confirm c2 txId (run ops s') = Inl StateError"
  proof
    assume ie: "is_executed s' txId"
    from executed_stays [OF ok' ie, of ops]
    have st: "is_executed (run ops s') txId" and one: "executions (run ops s') txId = 1"
      by simp_all
    from st one executed_rejects [OF st]
    show "is_executed (run ops s') txId \<and> executions (run ops s') txId = 1
          \<and> execute c1 txId (run ops s') = Inl StateError
          \<and> confirm c2 txId (run ops s') = Inl StateError"
      by simp
  qed
  show ?thesis
  proof (cases "t_threshold s \<le> Suc (length (pt_confirmations tx))")
    case True
    with c tx pend have p: "perform caller txId ?tx' s = Inr s'"
      by (auto simp: confirm_def Let_def split: if_splits)
    note eff = perform_effect [OF p]
    have t': "t_transactions s' txId = Some (?tx'\<lparr>pt_executed := True\<rparr>)"
      using eff(3) by simp
    have ie: "is_executed s' txId" using t' by (simp add: is_executed_def)
    have cc: "confirmation_count s' txId = Suc (length (pt_confirmations tx))"
      using t' by (simp add: confirmation_count_def)
    have ex1: "executions s' txId = 1"
      using perform_executions [OF p, of txId] e0 by simp
    from True t' ie cc ex1 eff(1,2,6,8) later show ?thesis by simp
  next
    case False
    with c tx pend
    have s': "s' = s\<lparr>t_transactions := (t_transactions s)(txId \<mapsto> ?tx')\<rparr>"
      by (auto simp: confirm_def Let_def split: if_splits)
    have ne: "\<not> is_executed s' txId" using pend by (simp add: s' is_executed_def)
    have cc: "confirmation_count s' txId = Suc (length (pt_confirmations tx))"
      by (simp add: s' confirmation_count_def)
    have ex0: "executions s' txId = 0" using e0 by (simp add: s' executions_def)
    have stored: "t_transactions s' txId =
           Some (tx\<lparr>pt_confirmations := pt_confirmations tx @ [caller],
                    pt_executed := (t_threshold s \<le> Suc (length (pt_confirmations tx)))\<rparr>)"
      using False pend by (simp add: s')
    have rest: "t_balance s' = t_balance s \<and> t_records s' = t_records s" by (simp add: s')
    from False ne cc ex0 stored rest show ?thesis by simp
  qed
qed

theorem confirm_executes_once_at_threshold_witness:
  "\<exists>s'. confirm 2 0 scenario = Inr s'
     \<and> confirmation_count scenario 0 = 1 \<and> \<not> is_executed scenario 0
     \<and> is_executed s' 0 \<and> executions s' 0 = 1 \<and> t_balance s' = 800
     \<and> execute 3 0 (run [Revoke 1 0, SetThreshold 100 3, Execute 1 0] s') = Inl StateError
     \<and> confirm 9 0 (run [Revoke 1 0, SetThreshold 100 3, Execute 1 0] s') = Inl StateError
     \<and> confirm 3 0 (run [Revoke 1 0, SetThreshold 100 3, Execute 1 0] s') = Inl StateError"
proof -
  let ?tx = "\<lparr>pt_recipient = 7, pt_amount = 200, pt_payload = [],
         pt_confirmations = [1], pt_executed = False\<rparr>"
  let ?ops = "[Revoke 1 0, SetThreshold 100 3, Execute 1 0]"
  have tx: "t_transactions scenario 0 = Some ?tx"
    by (simp add: scenario_def new_treasury_def propose_def confirm_def or_unchanged_def
          Let_def)
  have thr: "t_threshold scenario = 2" and bal: "t_balance scenario = 1000"
    by (simp_all add: scenario_def new_treasury_def propose_def confirm_def or_unchanged_def
          Let_def)
  have pend: "\<not> pt_executed ?tx" by simp
  have "\<exists>s'. confirm 2 0 scenario = Inr s'"
    by (simp add: scenario_def new_treasury_def propose_def confirm_def or_unchanged_def
          Let_def perform_def recordMovement_def)
  then obtain s' where c: "confirm 2 0 scenario = Inr s'" ..
  note t = confirm_executes_once_at_threshold
             [OF scenario_def tx pend c, of ?ops 3 9]
  from t have stored: "t_transactions s' 0 =
           Some (?tx\<lparr>pt_confirmations := pt_confirmations ?tx @ [2],
                    pt_executed := (t_threshold scenario \<le> Suc (length (pt_confirmations ?tx)))\<rparr>)"
    by (rule conjunct1)
  then have ie: "is_executed s' 0" by (simp add: is_executed_def thr)
  from t ie have a: "t_balance s' = t_balance scenario - pt_amount ?tx"
    and b: "executions s' 0 = 1" by simp_all
  from t ie have d: "execute 3 0 (run ?ops s') = Inl StateError"
    and e': "confirm 9 0 (run ?ops s') = Inl StateError"
    by simp_all
  from confirm_executes_once_at_threshold [OF scenario_def tx pend c, of ?ops 3 3] ie
  have e3: "confirm 3 0 (run ?ops s') = Inl StateError" by simp
  have f: "confirmation_count scenario 0 = 1 \<and> \<not> is_executed scenario 0"
    using tx by (simp add: confirmation_count_def is_executed_def)
  from c f ie b a bal d e' e3 show ?thesis by auto
qed

subsection \<open>C2: the budget of an allocation rule\<close>





end
